theory Spec2Isabelle
  imports
    Main
    "HOL-Library.AList"
    "HOL-Library.Sublist"
    "HOL-Library.Product_Lexorder"
    "HOL-Library.Word"
begin

section \<open>Strings of the dashboard\<close>

text \<open>
  Python strings are modelled as byte strings in UTF-8, the encoding of the source file
  \<^verbatim>\<open>streamlit_app.py\<close>: a pictograph of a page title is the four bytes of its encoding.
\<close>

definition newline :: string where
  "newline = [CHR 0x0A]"

definition hospital :: string where
  "hospital = [CHR 0xF0, CHR 0x9F, CHR 0x8F, CHR 0xA5]"

definition microscope :: string where
  "microscope = [CHR 0xF0, CHR 0x9F, CHR 0x94, CHR 0xAC]"

definition bar_chart :: string where
  "bar_chart = [CHR 0xF0, CHR 0x9F, CHR 0x93, CHR 0x8A]"

definition chart_up :: string where
  "chart_up = [CHR 0xF0, CHR 0x9F, CHR 0x93, CHR 0x88]"

definition dart :: string where
  "dart = [CHR 0xF0, CHR 0x9F, CHR 0x8E, CHR 0xAF]"

definition party :: string where
  "party = [CHR 0xF0, CHR 0x9F, CHR 0x8E, CHR 0x89]"

definition page_facing_up :: string where
  "page_facing_up = [CHR 0xF0, CHR 0x9F, CHR 0x93, CHR 0x84]"

definition arrows :: string where
  "arrows = [CHR 0xF0, CHR 0x9F, CHR 0x94, CHR 0x84]"

definition inbox_tray :: string where
  "inbox_tray = [CHR 0xF0, CHR 0x9F, CHR 0x93, CHR 0xA5]"

definition clipboard :: string where
  "clipboard = [CHR 0xF0, CHR 0x9F, CHR 0x93, CHR 0x8B]"

definition books :: string where
  "books = [CHR 0xF0, CHR 0x9F, CHR 0x93, CHR 0x9A]"

definition bullet :: string where
  "bullet = [CHR 0xE2, CHR 0x80, CHR 0xA2]"

text \<open>\<^verbatim>\<open>sep.join(xs)\<close> of Python, on a list of strings.\<close>

fun join :: "string \<Rightarrow> string list \<Rightarrow> string" where
  "join sep [] = []"
| "join sep [x] = x"
| "join sep (x # y # ys) = x @ sep @ join sep (y # ys)"

text \<open>The decimal numeral of a natural number, as \<^verbatim>\<open>"{}".format(n)\<close> prints it.\<close>

definition digit_char :: "nat \<Rightarrow> char" where
  "digit_char d = ''0123456789'' ! (d mod 10)"

fun str_of_nat :: "nat \<Rightarrow> string" where
  "str_of_nat n =
     (if n < 10 then [digit_char n] else str_of_nat (n div 10) @ [digit_char (n mod 10)])"

declare str_of_nat.simps [simp del]

text \<open>
  \<^verbatim>\<open>os.path.join(a, b)\<close> and \<^verbatim>\<open>os.path.basename(p)\<close> on POSIX paths: an absolute second
  component replaces the first.
\<close>

definition path_join :: "string \<Rightarrow> string \<Rightarrow> string" where
  "path_join a b =
     (if b \<noteq> [] \<and> hd b = CHR ''/'' then b
      else if a = [] \<or> last a = CHR ''/'' then a @ b
      else a @ ''/'' @ b)"

definition basename :: "string \<Rightarrow> string" where
  "basename p = rev (takeWhile (\<lambda>c. c \<noteq> CHR ''/'') (rev p))"

text \<open>
  The file-uploader widget of the UI library filters by extension: the part of the name
  after its last dot, compared without regard to case.
\<close>

definition lower_char :: "char \<Rightarrow> char" where
  "lower_char c =
     (case map_of (zip ''ABCDEFGHIJKLMNOPQRSTUVWXYZ'' ''abcdefghijklmnopqrstuvwxyz'') c of
        None \<Rightarrow> c
      | Some l \<Rightarrow> l)"

definition file_ext :: "string \<Rightarrow> string" where
  "file_ext n =
     (if CHR ''.'' \<in> set n
      then map lower_char (rev (takeWhile (\<lambda>c. c \<noteq> CHR ''.'') (rev n)))
      else [])"

section \<open>Tables\<close>

text \<open>
  A pandas DataFrame as the application reads it: an index of \<open>nrows\<close> rows and a list of
  named, typed columns. The application only asks whether a cell is missing, so a cell is
  \<open>NA\<close> or the text of its value.
\<close>

datatype cell = NA | Val string

datatype dtype = Int64 | Float64 | BoolT | ObjectT

record column =
  col_name :: string
  col_dtype :: dtype
  col_cells :: "cell list"

record dataframe =
  nrows :: nat
  columns :: "column list"

text \<open>
  The Table invariant of the data model: at least the header's columns, unique column
  names, and every column as long as the index.
\<close>

definition table_ok :: "dataframe \<Rightarrow> bool" where
  "table_ok d \<longleftrightarrow>
     columns d \<noteq> [] \<and> distinct (map col_name (columns d)) \<and>
     list_all (\<lambda>c. length (col_cells c) = nrows d) (columns d)"

text \<open>\<^verbatim>\<open>len(df)\<close> is the length of the index, \<^verbatim>\<open>len(df.columns)\<close> the number of columns.\<close>

definition len_df :: "dataframe \<Rightarrow> nat" where
  "len_df d = nrows d"

definition len_columns :: "dataframe \<Rightarrow> nat" where
  "len_columns d = length (columns d)"

text \<open>
  \<^verbatim>\<open>df.isnull()\<close> is the frame of flags, \<^verbatim>\<open>.sum()\<close> on it the series of per-column counts,
  and \<^verbatim>\<open>.sum()\<close> on that series their total.
\<close>

definition isnull :: "dataframe \<Rightarrow> (string \<times> bool list) list" where
  "isnull d = map (\<lambda>c. (col_name c, map (\<lambda>x. x = NA) (col_cells c))) (columns d)"

definition sum_frame :: "(string \<times> bool list) list \<Rightarrow> (string \<times> nat) list" where
  "sum_frame fr = map (\<lambda>(n, flags). (n, length (filter id flags))) fr"

definition sum_series :: "(string \<times> nat) list \<Rightarrow> nat" where
  "sum_series s = sum_list (map snd s)"

definition missing_values :: "dataframe \<Rightarrow> nat" where
  "missing_values d = sum_series (sum_frame (isnull d))"

text \<open>\<^verbatim>\<open>df.select_dtypes(include=['int64', 'float64'])\<close> and \<^verbatim>\<open>df.head()\<close>.\<close>

definition select_numeric :: "dataframe \<Rightarrow> dataframe" where
  "select_numeric d =
     d\<lparr>columns := filter (\<lambda>c. col_dtype c = Int64 \<or> col_dtype c = Float64) (columns d)\<rparr>"

definition head :: "dataframe \<Rightarrow> dataframe" where
  "head d =
     \<lparr>nrows = min 5 (nrows d),
      columns = map (\<lambda>c. c\<lparr>col_cells := take 5 (col_cells c)\<rparr>) (columns d)\<rparr>"

section \<open>Analysis results and errors\<close>

text \<open>
  The Analysis Result is a dictionary with six recognised keys, each optional. The
  application reads no other key, so the dictionary is a record of optional fields:
  \<^verbatim>\<open>"error" in r\<close> is \<open>error r \<noteq> None\<close>. A float is kept as its 64 bits; how it prints is
  the environment's business.
\<close>

type_synonym float64 = "64 word"

record analysis_result =
  insights :: "string list option"
  risk_factors :: "string list option"
  predictions :: "string option"
  accuracy :: "float64 option"
  confusion_matrix :: "nat list list option"
  error :: "string option"

text \<open>
  Exceptions are values. The five kinds of the error taxonomy, and \<open>PyError\<close> for an
  exception of the language or a library (\<^verbatim>\<open>TypeError\<close>, \<^verbatim>\<open>FileNotFoundError\<close>).
  \<open>str\<close> is \<^verbatim>\<open>str(e)\<close>.
\<close>

datatype exn =
    FormatError string
  | AnalysisFailure string
  | AssemblyError string
  | StorageError string
  | NotFoundError string
  | PyError string

fun str :: "exn \<Rightarrow> string" where
  "str (FormatError m) = m"
| "str (AnalysisFailure m) = m"
| "str (AssemblyError m) = m"
| "str (StorageError m) = m"
| "str (NotFoundError m) = m"
| "str (PyError m) = m"

section \<open>The report store\<close>

text \<open>
  Modelled from the spec: the module \<^verbatim>\<open>src/database/db_manager.py\<close> behind \<^verbatim>\<open>db\<close> is not
  among the sources. The store follows the logical schema and the contracts of the Report
  Store: two tables, identifiers and creation timestamps assigned by the store, no update
  and no delete. \<open>clock\<close> is the time the storage engine reads when a call arrives and
  \<open>available\<close> says whether the underlying storage can be reached; the environment, not
  the application, changes both.
\<close>

datatype meta = MInt nat | MStr string

record report =
  rid :: nat
  filename :: string
  report_path :: string
  report_type :: string
  stored_results :: analysis_result
  metadata :: "(string \<times> meta) list"
  created_at :: nat

record quick_summary =
  qid :: nat
  report_id :: nat
  summary_text :: string
  summary_created_at :: nat

record store =
  reports :: "report list"
  quick_summaries :: "quick_summary list"
  next_id :: nat
  next_summary_id :: nat
  clock :: nat
  available :: bool

record report_summary =
  s_id :: nat
  s_filename :: string
  s_report_type :: string
  s_metadata :: "(string \<times> meta) list"
  s_created_at :: nat

record report_details =
  d_report :: report
  summaries :: "quick_summary list"

record report_stats =
  total_reports :: nat
  recent_reports :: nat

text \<open>
  Modelled from the spec: the store before the first save, and the \<open>StorageError\<close> of a
  storage that cannot be reached.
\<close>

definition empty_store :: store where
  "empty_store =
     \<lparr>reports = [], quick_summaries = [], next_id = 1, next_summary_id = 1, clock = 0,
      available = True\<rparr>"

definition unavailable :: exn where
  "unavailable = StorageError ''storage unavailable''"

text \<open>
  Modelled from the spec: \<open>save\<close> inserts one new Report Record, assigns its identifier and
  timestamp, and succeeds unless the storage is unavailable.
\<close>

definition save_report ::
  "store \<Rightarrow> string \<Rightarrow> string \<Rightarrow> string \<Rightarrow> analysis_result \<Rightarrow> (string \<times> meta) list
     \<Rightarrow> exn + (nat \<times> store)" where
  "save_report st fname path rtype res md =
     (if \<not> available st then Inl unavailable
      else
        let r = \<lparr>rid = next_id st, filename = fname, report_path = path, report_type = rtype,
                 stored_results = res, metadata = md, created_at = clock st\<rparr>
        in Inr (next_id st, st\<lparr>reports := reports st @ [r], next_id := next_id st + 1\<rparr>))"

text \<open>
  Modelled from the spec: \<open>saveQuickSummary\<close> fails with \<open>NotFoundError\<close> when the identifier
  references no Report Record.
\<close>

definition save_quick_summary :: "store \<Rightarrow> nat \<Rightarrow> string \<Rightarrow> exn + store" where
  "save_quick_summary st i txt =
     (if \<not> available st then Inl unavailable
      else if i \<notin> rid ` set (reports st) then Inl (NotFoundError ''no such report'')
      else
        let q = \<lparr>qid = next_summary_id st, report_id = i, summary_text = txt,
                 summary_created_at = clock st\<rparr>
        in Inr (st\<lparr>quick_summaries := quick_summaries st @ [q],
                    next_summary_id := next_summary_id st + 1\<rparr>))"

text \<open>
  Modelled from the spec: the summary of a Report Record that the queries return, with the
  fields the history page reads.
\<close>

definition summary_of :: "report \<Rightarrow> report_summary" where
  "summary_of r =
     \<lparr>s_id = rid r, s_filename = filename r, s_report_type = report_type r,
      s_metadata = metadata r, s_created_at = created_at r\<rparr>"

text \<open>
  Modelled from the spec: records ordered by creation time descending, ties broken by
  identifier descending.
\<close>

definition newest_first :: "report list \<Rightarrow> report list" where
  "newest_first rs = rev (sort_key (\<lambda>r. (created_at r, rid r)) rs)"

text \<open>Modelled from the spec: \<open>recent(limit)\<close>.\<close>

definition get_recent_reports :: "store \<Rightarrow> nat \<Rightarrow> exn + report_summary list" where
  "get_recent_reports st n =
     (if \<not> available st then Inl unavailable
      else Inr (map summary_of (take n (newest_first (reports st)))))"

text \<open>
  Modelled from the spec: \<open>search(query)\<close> is a substring match over the filename, ordered
  by recency, the same for the same data.
\<close>

definition search_reports :: "store \<Rightarrow> string \<Rightarrow> exn + report_summary list" where
  "search_reports st q =
     (if \<not> available st then Inl unavailable
      else Inr (map summary_of (filter (\<lambda>r. sublist q (filename r)) (newest_first (reports st)))))"

text \<open>
  Modelled from the spec: \<open>getDetails(id)\<close> gives the full Report Record with its Quick
  Summaries. A reference to no record is shown as an absent result (the controller tests
  \<^verbatim>\<open>if details\<close>), which is \<open>None\<close> here.
\<close>

definition get_report_details :: "store \<Rightarrow> nat \<Rightarrow> exn + report_details option" where
  "get_report_details st i =
     (if \<not> available st then Inl unavailable
      else
        case find (\<lambda>r. rid r = i) (reports st) of
          None \<Rightarrow> Inr None
        | Some r \<Rightarrow>
            Inr (Some \<lparr>d_report = r,
                       summaries = filter (\<lambda>q. report_id q = i) (quick_summaries st)\<rparr>))"

text \<open>
  Modelled from the spec: \<open>summaryStats()\<close>; the trailing 24 hours are 86400 ticks of the
  clock.
\<close>

definition get_report_summary_stats :: "store \<Rightarrow> exn + report_stats" where
  "get_report_summary_stats st =
     (if \<not> available st then Inl unavailable
      else
        Inr \<lparr>total_reports = length (reports st),
             recent_reports =
               length (filter (\<lambda>r. clock st < created_at r + 86400) (reports st))\<rparr>)"

text \<open>
  The invariant of a store that only these operations have written: identifiers are
  below the next one to assign and pairwise distinct, and every Quick Summary references
  a Report Record.
\<close>

definition store_ok :: "store \<Rightarrow> bool" where
  "store_ok st \<longleftrightarrow>
     list_all (\<lambda>r. rid r < next_id st) (reports st) \<and>
     distinct (map rid (reports st)) \<and>
     list_all (\<lambda>q. report_id q \<in> rid ` set (reports st)) (quick_summaries st)"

section \<open>The page controller's world\<close>

text \<open>
  What a page shows is a list of display events, in the order of the calls. Tabs and
  expanders are shown by their labels; columns and spinners carry no content and are left
  out; an input widget is read from the inputs of the run and shows nothing of its own.
\<close>

datatype chart =
    Histplot dataframe "string option" string
  | Heatmap_corr dataframe string
  | Heatmap_matrix "nat list list" string

datatype frame_view = Rows dataframe | Describe dataframe

record preview =
  generated_on :: string
  file_analyzed :: string
  preview_format :: string
  sections :: "string list"
  total_records :: nat
  features_analyzed :: nat

datatype event =
    St_title string
  | St_markdown string
  | St_html string
  | St_dataframe frame_view
  | St_pyplot chart
  | St_metric string nat
  | St_info string
  | St_success string
  | St_warning string
  | St_error string
  | St_expander string
  | St_tabs "string list"
  | St_json "(string \<times> meta) list"
  | St_download_button string string string string
  | St_preview preview
  | St_sidebar_title string
  | St_sidebar_markdown string
  | St_sidebar_metric string nat

text \<open>
  The process-wide session state, the files of the upload and output areas (path and
  content), the store behind \<^verbatim>\<open>db\<close>, and what has been displayed.
\<close>

record session_state =
  current_file :: "string option"
  analysis_results :: "analysis_result option"
  df :: "dataframe option"
  selected_report :: "nat option"

record world =
  session :: session_state
  files :: "(string \<times> string) list"
  db :: store
  ui :: "event list"

text \<open>
  The collaborators outside the sources, as parameters: the operating system's part in
  saving an upload (\<^verbatim>\<open>os.makedirs\<close>, \<^verbatim>\<open>open\<close> and \<^verbatim>\<open>write\<close> of lines 107 to 110, which end
  normally or raise, and leave the files as they return them), the CSV parser of pandas
  on the bytes of a file, \<^verbatim>\<open>llm_agent.analyze\<close>, the plotting calls (which may raise),
  Python's formatting of a float as a percentage, and \<^verbatim>\<open>report_agent.generate_report\<close>,
  which reads the files and returns the path of the document with the files it has written.
\<close>

record env =
  write_file ::
    "(string \<times> string) list \<Rightarrow> string \<Rightarrow> string \<Rightarrow> exn option \<times> (string \<times> string) list"
  read_csv :: "string \<Rightarrow> exn + dataframe"
  analyze :: "dataframe \<Rightarrow> string \<Rightarrow> exn + analysis_result"
  draw :: "chart \<Rightarrow> exn option"
  format_percent :: "float64 \<Rightarrow> string"
  generate_report ::
    "(string \<times> string) list \<Rightarrow> string \<Rightarrow> analysis_result \<Rightarrow> string
       \<Rightarrow> exn + (string \<times> (string \<times> string) list)"

text \<open>
  A run of a block of statements ends normally (\<open>None\<close>) or with an exception; the
  side effects made before the exception stay.
\<close>

type_synonym action = "world \<Rightarrow> exn option \<times> world"

definition emit :: "event \<Rightarrow> world \<Rightarrow> world" where
  "emit e w = w\<lparr>ui := ui w @ [e]\<rparr>"

definition emits :: "event list \<Rightarrow> world \<Rightarrow> world" where
  "emits es w = w\<lparr>ui := ui w @ es\<rparr>"

definition say :: "event list \<Rightarrow> action" where
  "say es w = (None, emits es w)"

definition seq :: "action \<Rightarrow> action \<Rightarrow> action" where
  "seq m n w = (case m w of (Some e, w') \<Rightarrow> (Some e, w') | (None, w') \<Rightarrow> n w')"

definition plot :: "env \<Rightarrow> chart \<Rightarrow> action" where
  "plot env c w = (case draw env c of Some e \<Rightarrow> (Some e, w) | None \<Rightarrow> (None, emit (St_pyplot c) w))"

text \<open>\<^verbatim>\<open>pd.read_csv(path)\<close>: the file must exist, then its bytes are parsed.\<close>

definition quoted :: "string \<Rightarrow> string" where
  "quoted s = [CHR 0x27] @ s @ [CHR 0x27]"

definition no_such_file :: "string \<Rightarrow> exn" where
  "no_such_file path = PyError (''[Errno 2] No such file or directory: '' @ quoted path)"

definition read_csv_file :: "env \<Rightarrow> (string \<times> string) list \<Rightarrow> string \<Rightarrow> exn + dataframe" where
  "read_csv_file env fs path =
     (case map_of fs path of
        None \<Rightarrow> Inl (no_such_file path)
      | Some bytes \<Rightarrow> read_csv env bytes)"

text \<open>The widgets: an uploaded file, a selection among options, a choice of two.\<close>

record upload =
  up_name :: string
  up_type :: string
  up_bytes :: string

definition file_uploader :: "string list \<Rightarrow> upload option \<Rightarrow> upload option" where
  "file_uploader types chosen =
     (case chosen of
        None \<Rightarrow> None
      | Some f \<Rightarrow> if file_ext (up_name f) \<in> set types then Some f else None)"

definition selectbox :: "string list \<Rightarrow> nat \<Rightarrow> string option" where
  "selectbox options i =
     (if options = [] then None
      else if i < length options then Some (options ! i)
      else Some (hd options))"

datatype analysis_choice = Basic_Analysis | Detailed_Analysis

fun analysis_label :: "analysis_choice \<Rightarrow> string" where
  "analysis_label Basic_Analysis = ''Basic Analysis''"
| "analysis_label Detailed_Analysis = ''Detailed Analysis with Predictions''"

datatype format_choice = Standard | Detailed

fun format_label :: "format_choice \<Rightarrow> string" where
  "format_label Standard = ''Standard''"
| "format_label Detailed = ''Detailed''"

definition lower :: "string \<Rightarrow> string" where
  "lower s = map lower_char s"

definition str_of_option :: "string option \<Rightarrow> string" where
  "str_of_option x = (case x of None \<Rightarrow> ''None'' | Some s \<Rightarrow> s)"

section \<open>Upload and analyze\<close>

text \<open>
  The HTML of one metric card, \<^verbatim>\<open>"""...{}...""".format(v)\<close> with the label of the card:
  the lines of the template with their indentation.
\<close>

definition spaces :: "nat \<Rightarrow> string" where
  "spaces n = replicate n (CHR '' '')"

definition metric_card :: "string \<Rightarrow> string \<Rightarrow> string" where
  \<open>metric_card v label =
     newline @ spaces 20 @ ''<div class="metric-card">'' @
     newline @ spaces 24 @ ''<div class="metric-value">'' @ v @ ''</div>'' @
     newline @ spaces 24 @ ''<div class="metric-label">'' @ label @ ''</div>'' @
     newline @ spaces 20 @ ''</div>'' @
     newline @ spaces 16\<close>

record upload_inputs =
  uploaded_file :: "upload option"
  analysis_type :: analysis_choice
  run_analysis :: bool
  feature_choice :: nat

text \<open>Lines 118 to 162: the four cards, the preview and the heading of the options.\<close>

definition data_overview :: "dataframe \<Rightarrow> event list" where
  "data_overview d =
     [St_html (metric_card (str_of_nat (len_df d)) ''Records''),
      St_html (metric_card (str_of_nat (len_columns d)) ''Features''),
      St_html (metric_card (str_of_nat (len_columns (select_numeric d))) ''Numeric Cols''),
      St_html (metric_card (str_of_nat (missing_values d)) ''Missing Values''),
      St_markdown ''### Data Preview'',
      St_dataframe (Rows (head d)),
      St_markdown ''## Analysis Options'']"

text \<open>Lines 173 to 181, the first tab: insights and risk factors as bullet points.\<close>

definition insights_tab :: "analysis_result \<Rightarrow> event list" where
  "insights_tab res =
     (case insights res of
        None \<Rightarrow> []
      | Some xs \<Rightarrow> map (\<lambda>i. St_markdown (bullet @ '' '' @ i)) xs) @
     (case risk_factors res of
        None \<Rightarrow> []
      | Some xs \<Rightarrow>
          St_markdown ''### Risk Factors'' # map (\<lambda>r. St_markdown (bullet @ '' '' @ r)) xs)"

text \<open>Lines 183 to 202, the second tab: a histogram of the chosen feature and the correlations.\<close>

definition visualizations_tab :: "env \<Rightarrow> nat \<Rightarrow> dataframe \<Rightarrow> action" where
  "visualizations_tab env choice d =
     (let numeric_cols = map col_name (columns (select_numeric d));
          selected_col = selectbox numeric_cols choice;
          numeric_df = select_numeric d
      in seq (say [St_markdown ''#### Distribution Analysis''])
          (seq (plot env (Histplot d selected_col (''Distribution of '' @ str_of_option selected_col)))
            (seq (say [St_markdown ''#### Correlation Analysis''])
              (plot env (Heatmap_corr numeric_df ''Feature Correlations'')))))"

text \<open>Lines 204 to 220, the third tab: the accuracy and the confusion matrix when predictions exist.\<close>

definition predictions_tab :: "env \<Rightarrow> analysis_result \<Rightarrow> action" where
  "predictions_tab env res =
     (case predictions res of
        None \<Rightarrow> say [St_info ''No prediction results available for this analysis.'']
      | Some _ \<Rightarrow>
          seq (say (St_markdown ''### Prediction Results'' #
                    (case accuracy res of
                       None \<Rightarrow> []
                     | Some a \<Rightarrow> [St_markdown (''Model Accuracy: '' @ format_percent env a)])))
              (case confusion_matrix res of
                 None \<Rightarrow> say []
               | Some m \<Rightarrow>
                   seq (say [St_markdown ''#### Confusion Matrix''])
                       (plot env (Heatmap_matrix m ''Confusion Matrix''))))"

text \<open>
  Lines 165 to 222, the body of the button: the result of the analysis is stored in the
  session whatever its keys, then shown.
\<close>

definition run_analysis_block :: "env \<Rightarrow> upload_inputs \<Rightarrow> dataframe \<Rightarrow> action" where
  "run_analysis_block env inp d w =
     (case analyze env d (analysis_label (analysis_type inp)) of
        Inl e \<Rightarrow> (Some e, w)
      | Inr res \<Rightarrow>
          seq (say (St_tabs [bar_chart @ '' Insights'', chart_up @ '' Visualizations'',
                             dart @ '' Predictions''] # insights_tab res))
            (seq (visualizations_tab env (feature_choice inp) d)
              (seq (predictions_tab env res)
                (say [St_success (''Analysis complete! '' @ party)])))
            (w\<lparr>session := (session w)\<lparr>analysis_results := Some res\<rparr>\<rparr>))"

text \<open>
  Lines 105 to 222, the body of the \<^verbatim>\<open>try\<close>: the bytes are written to the upload area;
  when that raises, nothing else of the body runs. Otherwise the path is stored in the
  session, and only then is the file parsed.
\<close>

definition upload_try :: "env \<Rightarrow> upload_inputs \<Rightarrow> upload \<Rightarrow> action" where
  "upload_try env inp f w =
     (let save_dir = ''uploads'';
          file_path = path_join save_dir (up_name f)
      in case write_file env (files w) file_path (up_bytes f) of
           (Some e, fs) \<Rightarrow> (Some e, w\<lparr>files := fs\<rparr>)
         | (None, fs) \<Rightarrow>
             (let w1 = w\<lparr>files := fs\<rparr>;
                  w2 = w1\<lparr>session := (session w1)\<lparr>current_file := Some file_path\<rparr>\<rparr>
              in case read_csv_file env (files w2) file_path of
                   Inl e \<Rightarrow> (Some e, w2)
                 | Inr d \<Rightarrow>
                     (let w3 = w2\<lparr>session := (session w2)\<lparr>df := Some d\<rparr>\<rparr>;
                          w4 = emits (data_overview d) w3
                      in if run_analysis inp then run_analysis_block env inp d w4
                         else (None, w4))))"

text \<open>Lines 97 to 225: every exception of the body ends in an error message.\<close>

definition show_upload_and_analyze :: "env \<Rightarrow> upload_inputs \<Rightarrow> action" where
  "show_upload_and_analyze env inp w =
     (let w1 = emit (St_title (''Medical Data Analysis '' @ microscope)) w
      in case file_uploader [''csv''] (uploaded_file inp) of
           None \<Rightarrow> (None, w1)
         | Some f \<Rightarrow>
             (case upload_try env inp f w1 of
                (Some e, w2) \<Rightarrow> (None, emit (St_error (''Error processing file: '' @ str e)) w2)
              | (None, w2) \<Rightarrow> (None, w2)))"

section \<open>Report generation\<close>

record report_inputs =
  report_feature_choice :: nat
  report_options :: "string list"
  report_format :: format_choice
  generate_clicked :: bool
  now_text :: string

text \<open>
  Lines 239 to 273, the dashboard: the file of the session is parsed again, outside any
  \<^verbatim>\<open>try\<close>.
\<close>

definition dashboard :: "env \<Rightarrow> report_inputs \<Rightarrow> string \<Rightarrow> action" where
  "dashboard env inp file w =
     (case read_csv_file env (files w) file of
        Inl e \<Rightarrow> (Some e, w)
      | Inr d \<Rightarrow>
          (let numeric_cols = map col_name (columns (select_numeric d));
               selected_col = selectbox numeric_cols (report_feature_choice inp);
               numeric_df = select_numeric d
           in seq (say [St_markdown ''## Data Insights Dashboard'',
                        St_tabs [bar_chart @ '' Distributions'', arrows @ '' Correlations'',
                                 chart_up @ '' Statistics''],
                        St_markdown ''### Distribution Analysis''])
               (seq (plot env (Histplot d selected_col (''Distribution of '' @ str_of_option selected_col)))
                 (seq (say [St_markdown ''### Correlation Analysis''])
                   (seq (plot env (Heatmap_corr numeric_df ''Feature Correlation Analysis''))
                     (say [St_markdown ''### Statistical Summary'', St_dataframe (Describe d)]))))
               w))"

text \<open>
  Lines 298 to 334, the body of the \<^verbatim>\<open>try\<close>: the assembler is called with the file and
  the result of the session as they are, the document is read back for the download
  button, and the preview counts the rows and columns of the session's table. The
  preview is kept as its interpolated values.
\<close>

definition generate_try :: "env \<Rightarrow> report_inputs \<Rightarrow> string \<Rightarrow> analysis_result \<Rightarrow> action" where
  "generate_try env inp file res w =
     (case generate_report env (files w) file res (lower (format_label (report_format inp))) of
        Inl e \<Rightarrow> (Some e, w)
      | Inr (rpath, fs) \<Rightarrow>
          (let w1 = emit (St_success (''Report generated successfully! '' @ party)) (w\<lparr>files := fs\<rparr>)
           in case map_of (files w1) rpath of
                None \<Rightarrow> (Some (no_such_file rpath), w1)
              | Some doc \<Rightarrow>
                  (let w2 = emits
                         [St_download_button (inbox_tray @ '' Download Report'') doc
                            (basename rpath) ''application/pdf'',
                          St_expander ''Report Preview'',
                          St_info ''This is a preview of the report content. Download the PDF for the full formatted report.'']
                         w1
                   in case df (session w2) of
                        None \<Rightarrow> (Some (PyError (''object of type '' @ quoted ''NoneType'' @ '' has no len()'')), w2)
                      | Some d \<Rightarrow>
                          (None,
                           emit (St_preview
                                  \<lparr>generated_on = now_text inp, file_analyzed = basename file,
                                   preview_format = format_label (report_format inp),
                                   sections = report_options inp, total_records = len_df d,
                                   features_analyzed = len_columns d\<rparr>)
                             w2))))"

text \<open>Lines 276 to 338: the section of the button, with its \<^verbatim>\<open>except\<close>.\<close>

definition generate_section :: "env \<Rightarrow> report_inputs \<Rightarrow> string \<Rightarrow> analysis_result \<Rightarrow> action" where
  "generate_section env inp file res w =
     (let w1 = emit (St_markdown ''## Generate Report'') w
      in if generate_clicked inp
         then (case generate_try env inp file res w1 of
                 (Some e, w2) \<Rightarrow>
                   (None, emits [St_error (''Error generating report: '' @ str e),
                                 St_error ''Please try again.''] w2)
               | (None, w2) \<Rightarrow> (None, w2))
         else (None, w1))"

text \<open>
  Lines 227 to 338: the page asks for a file and for a result in the session, and for
  nothing else, before it shows the dashboard and the button.
\<close>

definition show_report_generation :: "env \<Rightarrow> report_inputs \<Rightarrow> action" where
  "show_report_generation env inp w =
     (let w1 = emit (St_title (''Report Generation '' @ page_facing_up)) w
      in case current_file (session w1) of
           None \<Rightarrow>
             (None, emit (St_warning ''Please upload a file first in the Upload & Analyze section'') w1)
         | Some file \<Rightarrow>
             (case analysis_results (session w1) of
                None \<Rightarrow>
                  (None, emit (St_warning ''Please run analysis first in the Upload & Analyze section'') w1)
              | Some res \<Rightarrow>
                  seq (if file \<noteq> [] then dashboard env inp file else say [])
                      (generate_section env inp file res) w1))"

text \<open>
  Modelled from the spec: the module \<^verbatim>\<open>src/agents/report_generation_agent.py\<close> behind
  \<^verbatim>\<open>report_agent\<close> is not among the sources. The Report Assembler rejects a result that
  carries an error, generates no document for a detailed-mode result that has no accuracy,
  whatever the requested format, and otherwise writes the one document its renderer
  produces and returns its path; a failure of the renderer is an \<open>AssemblyError\<close> too.
  An Analysis Result has no key for the mode of the analysis that produced it, so
  which results are detailed-mode results is a parameter, as the renderer is.
\<close>

definition generate ::
  "(analysis_result \<Rightarrow> bool)
     \<Rightarrow> (string \<Rightarrow> analysis_result \<Rightarrow> string \<Rightarrow> exn + (string \<times> string))
     \<Rightarrow> (string \<times> string) list \<Rightarrow> string \<Rightarrow> analysis_result \<Rightarrow> string
     \<Rightarrow> exn + (string \<times> (string \<times> string) list)" where
  "generate detailed_mode render fs source_file result fmt =
     (if error result \<noteq> None then Inl (AssemblyError ''the analysis result carries an error'')
      else if detailed_mode result \<and> accuracy result = None
      then Inl (AssemblyError ''a detailed-mode result needs the accuracy'')
      else
        case render source_file result fmt of
          Inl e \<Rightarrow> Inl (AssemblyError (str e))
        | Inr (path, doc) \<Rightarrow> Inr (path, AList.update path doc fs))"

section \<open>Quick summary\<close>

text \<open>Lines 372 to 376: the metadata of a quick summary, in the order of the literal.\<close>

definition quick_metadata :: "dataframe \<Rightarrow> upload \<Rightarrow> (string \<times> meta) list" where
  "quick_metadata d f =
     [(''rows'', MInt (len_df d)), (''columns'', MInt (len_columns d)),
      (''file_type'', MStr (up_type f))]"

text \<open>Line 387: \<^verbatim>\<open>"\n".join(analysis_results.get("insights", []))\<close>.\<close>

definition quick_summary_text :: "analysis_result \<Rightarrow> string" where
  "quick_summary_text res = join newline (case insights res of None \<Rightarrow> [] | Some xs \<Rightarrow> xs)"

text \<open>
  Lines 365 to 392, after the analysis has returned: without the key \<^verbatim>\<open>error\<close> the
  insights are shown, the report is saved and then its summary under the identifier
  that the save returned; with the key only the error message is shown.
\<close>

definition save_summary :: "upload \<Rightarrow> dataframe \<Rightarrow> analysis_result \<Rightarrow> action" where
  "save_summary f d res w =
     (if error res = None then
        (let w1 = emits (case insights res of None \<Rightarrow> [] | Some xs \<Rightarrow> map St_info xs) w;
             md = quick_metadata d f
         in case save_report (db w1) (up_name f) '''' ''quick_summary'' res md of
              Inl e \<Rightarrow> (Some e, w1)
            | Inr (new_id, st1) \<Rightarrow>
                (let w2 = w1\<lparr>db := st1\<rparr>;
                     summary = quick_summary_text res
                 in case save_quick_summary (db w2) new_id summary of
                      Inl e \<Rightarrow> (Some e, w2)
                    | Inr st2 \<Rightarrow>
                        (None, emit (St_success (''Summary saved to database! '' @ party))
                                 (w2\<lparr>db := st2\<rparr>))))
      else (None, emit (St_error ''Failed to generate summary. Please try again.'') w))"

text \<open>
  Lines 340 to 392: the page has no \<^verbatim>\<open>try\<close>; an exception of the parser, of the analysis
  or of the store leaves the page.
\<close>

definition show_quick_summary :: "env \<Rightarrow> upload option \<Rightarrow> action" where
  "show_quick_summary env chosen w =
     (let w1 = emit (St_title (''Quick Summary '' @ clipboard)) w
      in case file_uploader [''csv'', ''xlsx''] chosen of
           None \<Rightarrow> (None, w1)
         | Some f \<Rightarrow>
             (case read_csv env (up_bytes f) of
                Inl e \<Rightarrow> (Some e, w1)
              | Inr d \<Rightarrow>
                  (let w2 = emits
                         [St_markdown ''### Dataset Overview'',
                          St_metric ''Total Records'' (len_df d),
                          St_metric ''Features'' (len_columns d),
                          St_metric ''Missing Values'' (missing_values d),
                          St_markdown ''### Quick Insights'']
                         w1
                   in case analyze env d ''basic'' of
                        Inl e \<Rightarrow> (Some e, w2)
                      | Inr res \<Rightarrow> save_summary f d res w2)))"

section \<open>Report history\<close>

record history_inputs =
  search_query :: string
  view_clicked :: "nat option"

text \<open>Lines 400 to 403: an empty query is false in Python and asks for the ten most recent.\<close>

definition history_reports :: "store \<Rightarrow> string \<Rightarrow> exn + report_summary list" where
  "history_reports st q = (if q \<noteq> [] then search_reports st q else get_recent_reports st 10)"

text \<open>
  Lines 406 to 418, the loop: one expander for each report, with its metadata, the texts
  of its summaries, and a button that selects it. A creation time prints as its number of
  ticks.
\<close>

fun show_reports :: "history_inputs \<Rightarrow> report_summary list \<Rightarrow> action" where
  "show_reports inp [] w = (None, w)"
| "show_reports inp (r # rs) w =
     (let w1 = emits
            [St_expander (s_filename r @ '' - '' @ str_of_nat (s_created_at r)),
             St_json (s_metadata r)] w
      in case get_report_details (db w1) (s_id r) of
           Inl e \<Rightarrow> (Some e, w1)
         | Inr details \<Rightarrow>
             (let w2 = (case details of
                          None \<Rightarrow> w1
                        | Some d \<Rightarrow>
                            emits (St_markdown ''### Quick Summaries'' #
                                   map (\<lambda>q. St_info (summary_text q)) (summaries d)) w1);
                  w3 = (if view_clicked inp = Some (s_id r)
                        then w2\<lparr>session := (session w2)\<lparr>selected_report := Some (s_id r)\<rparr>\<rparr>
                        else w2)
              in show_reports inp rs w3))"

text \<open>Lines 394 to 424.\<close>

definition show_report_history :: "history_inputs \<Rightarrow> action" where
  "show_report_history inp w =
     (let w1 = emit (St_title (''Report History '' @ books)) w
      in case history_reports (db w1) (search_query inp) of
           Inl e \<Rightarrow> (Some e, w1)
         | Inr found \<Rightarrow>
             seq (show_reports inp found)
                 (\<lambda>w2. case get_report_summary_stats (db w2) of
                         Inl e \<Rightarrow> (Some e, w2)
                       | Inr stats \<Rightarrow>
                           say [St_sidebar_markdown ''### Report Statistics'',
                                St_sidebar_metric ''Total Reports'' (total_reports stats),
                                St_sidebar_metric ''Recent Reports (24h)'' (recent_reports stats)]
                               w2)
                 w1)"

section \<open>The script\<close>

text \<open>
  Lines 84 to 95 and 427 to 434: a session starts with its three keys set to \<^verbatim>\<open>None\<close>;
  every run shows the sidebar and then the page that the navigation selects. The style
  sheet of lines 27 to 81 is left out.
\<close>

definition fresh_session :: session_state where
  "fresh_session =
     \<lparr>current_file = None, analysis_results = None, df = None, selected_report = None\<rparr>"

datatype request =
    Upload_and_Analyze upload_inputs
  | Report_Generation report_inputs
  | Quick_Summary "upload option"
  | Report_History history_inputs

definition run_script :: "env \<Rightarrow> request \<Rightarrow> action" where
  "run_script env req w =
     (let w1 = emits [St_sidebar_title (hospital @ '' Medical Report Analyzer''),
                      St_sidebar_markdown ''---''] w
      in case req of
           Upload_and_Analyze inp \<Rightarrow> show_upload_and_analyze env inp w1
         | Report_Generation inp \<Rightarrow> show_report_generation env inp w1
         | Quick_Summary chosen \<Rightarrow> show_quick_summary env chosen w1
         | Report_History inp \<Rightarrow> show_report_history inp w1)"

section \<open>The statistics in the words of the specification\<close>

text \<open>
  The total count of missing cells, said on the table itself: the number of positions,
  column \<open>j\<close> and row \<open>i\<close>, whose cell is \<open>NA\<close>. The number of rows is \<open>nrows\<close> and the
  number of columns is the length of \<open>columns\<close>.
\<close>

definition missing_cells :: "dataframe \<Rightarrow> nat" where
  "missing_cells d =
     length (filter (\<lambda>(j, i). col_cells (columns d ! j) ! i = NA)
       (List.product [0..<length (columns d)] [0..<nrows d]))"

text \<open>The number that a decimal numeral denotes, read digit by digit from the left.\<close>

definition decimal_value :: "string \<Rightarrow> nat" where
  "decimal_value s = foldl (\<lambda>a c. 10 * a + (of_char c - 48)) 0 s"


section \<open>Example runs\<close>

text \<open>
  Concrete collaborators, inputs and worlds, on which the theorems below are evaluated.
  \<open>disk_write\<close> is an upload area without subdirectories: a name with a directory part
  cannot be opened. \<open>has_predictions\<close> takes a result with the key \<^verbatim>\<open>predictions\<close> for a
  detailed-mode result. \<open>failing_env\<close> is an environment in which every collaborator but
  the disk fails; \<open>good_env\<close> parses one file into a table of two rows, analyses it into two
  insights and assembles reports as the Report Assembler of the specification does, with
  a renderer that always succeeds. \<open>error_env\<close> and \<open>bare_env\<close> differ from it in the
  result of the analysis, \<open>clinic_env\<close> and \<open>cohort_env\<close> in the file they parse, and
  \<open>careless_env\<close> has an analysis that returns an error and an assembler that accepts
  every result.
\<close>

definition disk_write ::
  "(string \<times> string) list \<Rightarrow> string \<Rightarrow> string \<Rightarrow> exn option \<times> (string \<times> string) list" where
  "disk_write fs path bytes =
     (if CHR ''/'' \<in> set (drop (length ''uploads/'') path) then (Some (no_such_file path), fs)
      else (None, AList.update path bytes fs))"

definition has_predictions :: "analysis_result \<Rightarrow> bool" where
  "has_predictions res \<longleftrightarrow> predictions res \<noteq> None"

definition tokenizing_error :: exn where
  "tokenizing_error =
     FormatError (''Error tokenizing data. C error: Expected 2 fields in line 3, saw 3'' @ newline)"

definition failing_env :: env where
  "failing_env =
     \<lparr>write_file = disk_write,
      read_csv = (\<lambda>b. Inl tokenizing_error),
      analyze = (\<lambda>d m. Inl (AnalysisFailure ''no model'')),
      draw = (\<lambda>c. None),
      format_percent = (\<lambda>a. ''0.00%''),
      generate_report = (\<lambda>fs p r t. Inl (AssemblyError ''no renderer''))\<rparr>"

definition start_world :: world where
  "start_world = \<lparr>session = fresh_session, files = [], db = empty_store, ui = []\<rparr>"

definition ragged_bytes :: string where
  "ragged_bytes = ''a,b'' @ newline @ ''1,2'' @ newline @ ''3,4,5'' @ newline"

definition broken_csv :: upload where
  "broken_csv = \<lparr>up_name = ''broken.csv'', up_type = ''text/csv'', up_bytes = ragged_bytes\<rparr>"

definition upload_broken :: upload_inputs where
  "upload_broken =
     \<lparr>uploaded_file = Some broken_csv, analysis_type = Basic_Analysis, run_analysis = False,
      feature_choice = 0\<rparr>"

definition nested_csv :: upload where
  "nested_csv = \<lparr>up_name = ''sub/b.csv'', up_type = ''text/csv'', up_bytes = ragged_bytes\<rparr>"

definition upload_nested :: upload_inputs where
  "upload_nested =
     \<lparr>uploaded_file = Some nested_csv, analysis_type = Basic_Analysis, run_analysis = False,
      feature_choice = 0\<rparr>"

definition small_table :: dataframe where
  "small_table =
     \<lparr>nrows = 2,
      columns =
        [\<lparr>col_name = ''age'', col_dtype = Int64, col_cells = [Val ''41'', Val ''67'']\<rparr>,
         \<lparr>col_name = ''bp'', col_dtype = Float64, col_cells = [Val ''120.5'', NA]\<rparr>]\<rparr>"

definition small_result :: analysis_result where
  "small_result =
     \<lparr>insights = Some [''Two records'', ''One value is missing''], risk_factors = None,
      predictions = None, accuracy = None, confusion_matrix = None, error = None\<rparr>"

definition failed_result :: analysis_result where
  "failed_result =
     \<lparr>insights = None, risk_factors = None, predictions = None, accuracy = None,
      confusion_matrix = None, error = Some ''model unavailable''\<rparr>"

definition bare_result :: analysis_result where
  "bare_result =
     \<lparr>insights = None, risk_factors = Some [''High blood pressure''], predictions = None,
      accuracy = None, confusion_matrix = None, error = None\<rparr>"


definition demo_render :: "string \<Rightarrow> analysis_result \<Rightarrow> string \<Rightarrow> exn + (string \<times> string)" where
  "demo_render source_file result fmt = Inr (''reports/report.pdf'', ''%PDF'')"

definition good_env :: env where
  "good_env =
     \<lparr>write_file = disk_write,
      read_csv = (\<lambda>b. if b = ''age,bp'' then Inr small_table
                        else Inl (FormatError ''Error tokenizing data'')),
      analyze = (\<lambda>d m. Inr small_result),
      draw = (\<lambda>c. None),
      format_percent = (\<lambda>a. ''87.00%''),
      generate_report = generate has_predictions demo_render\<rparr>"

definition error_env :: env where
  "error_env = good_env\<lparr>analyze := (\<lambda>d m. Inr failed_result)\<rparr>"

definition bare_env :: env where
  "bare_env = good_env\<lparr>analyze := (\<lambda>d m. Inr bare_result)\<rparr>"

definition visits_csv :: upload where
  "visits_csv = \<lparr>up_name = ''visits.csv'', up_type = ''text/csv'', up_bytes = ''age,bp''\<rparr>"

definition scan_xlsx :: upload where
  "scan_xlsx =
     \<lparr>up_name = ''scan.xlsx'', up_type = ''application/vnd.ms-excel'', up_bytes = ''PK''\<rparr>"







definition clinic_row :: "string \<Rightarrow> string \<Rightarrow> string" where
  "clinic_row bp glucose = ''50,'' @ bp @ '','' @ glucose @ '',F,False'' @ newline"

definition clinic_bytes :: string where
  "clinic_bytes =
     ''age,bp,glucose,sex,smoker'' @ newline @
     clinic_row '''' ''5.4'' @
     concat (replicate 39 (clinic_row ''120.0'' ''5.4'')) @
     clinic_row ''120.0'' '''' @ clinic_row ''120.0'' '''' @
     concat (replicate 58 (clinic_row ''120.0'' ''5.4''))"

definition clinic_table :: dataframe where
  "clinic_table =
     \<lparr>nrows = 100,
      columns =
        [\<lparr>col_name = ''age'', col_dtype = Int64, col_cells = replicate 100 (Val ''50'')\<rparr>,
         \<lparr>col_name = ''bp'', col_dtype = Float64,
          col_cells = NA # replicate 99 (Val ''120.0'')\<rparr>,
         \<lparr>col_name = ''glucose'', col_dtype = Float64,
          col_cells = replicate 40 (Val ''5.4'') @ [NA, NA] @ replicate 58 (Val ''5.4'')\<rparr>,
         \<lparr>col_name = ''sex'', col_dtype = ObjectT, col_cells = replicate 100 (Val ''F'')\<rparr>,
         \<lparr>col_name = ''smoker'', col_dtype = BoolT,
          col_cells = replicate 100 (Val ''False'')\<rparr>]\<rparr>"

definition clinic_env :: env where
  "clinic_env =
     good_env\<lparr>read_csv := (\<lambda>b. if b = clinic_bytes then Inr clinic_table
                                else Inl (FormatError ''Error tokenizing data''))\<rparr>"

definition clinic_csv :: upload where
  "clinic_csv = \<lparr>up_name = ''clinic.csv'', up_type = ''text/csv'', up_bytes = clinic_bytes\<rparr>"

definition clinic_xlsx :: upload where
  "clinic_xlsx =
     \<lparr>up_name = ''clinic.xlsx'', up_type = ''application/vnd.ms-excel'',
      up_bytes = clinic_bytes\<rparr>"

definition upload_clinic :: upload_inputs where
  "upload_clinic =
     \<lparr>uploaded_file = Some clinic_csv, analysis_type = Basic_Analysis, run_analysis = False,
      feature_choice = 0\<rparr>"



definition one_report_store :: store where
  "one_report_store =
     \<lparr>reports =
        [\<lparr>rid = 1, filename = ''visits.csv'', report_path = '''',
          report_type = ''quick_summary'', stored_results = small_result,
          metadata = [(''rows'', MInt 2), (''columns'', MInt 2), (''file_type'', MStr ''text/csv'')],
          created_at = 0\<rparr>],
      quick_summaries =
        [\<lparr>qid = 1, report_id = 1, summary_text = ''Two records'', summary_created_at = 0\<rparr>],
      next_id = 2, next_summary_id = 2, clock = 7, available = True\<rparr>"

definition stamped :: "nat \<Rightarrow> nat \<Rightarrow> report" where
  "stamped i t =
     \<lparr>rid = i, filename = ''visits.csv'', report_path = '''', report_type = ''quick_summary'',
      stored_results = small_result, metadata = [], created_at = t\<rparr>"

definition three_report_store :: store where
  "three_report_store =
     \<lparr>reports = [stamped 1 5, stamped 2 5, stamped 3 9], quick_summaries = [],
      next_id = 4, next_summary_id = 1, clock = 9, available = True\<rparr>"

section \<open>Basic facts\<close>

lemma emit_simps:
  "session (emit e w) = session w" "files (emit e w) = files w" "db (emit e w) = db w"
  "ui (emit e w) = ui w @ [e]"
  by (simp_all add: emit_def)

lemma emits_simps:
  "session (emits es w) = session w" "files (emits es w) = files w" "db (emits es w) = db w"
  "ui (emits es w) = ui w @ es"
  by (simp_all add: emits_def)

lemma file_ext_broken: "file_ext ''broken.csv'' = ''csv''"
  by (simp add: file_ext_def lower_char_def)

lemma file_ext_visits: "file_ext ''visits.csv'' = ''csv''"
  by (simp add: file_ext_def lower_char_def)

lemma file_ext_scan: "file_ext ''scan.xlsx'' = ''xlsx''"
  by (simp add: file_ext_def lower_char_def)

lemma quick_accepts:
  "file_uploader [''csv'', ''xlsx''] chosen = Some f \<longleftrightarrow>
     chosen = Some f \<and> (file_ext (up_name f) = ''csv'' \<or> file_ext (up_name f) = ''xlsx'')"
  by (auto simp add: file_uploader_def split: option.splits)

lemma accepts_csv:
  "file_ext (up_name f) = ''csv'' \<Longrightarrow> file_uploader [''csv''] (Some f) = Some f"
  "file_ext (up_name f) = ''csv'' \<Longrightarrow> file_uploader [''csv'', ''xlsx''] (Some f) = Some f"
  by (simp_all add: file_uploader_def)

lemma accepts_visits: "file_uploader [''csv'', ''xlsx''] (Some visits_csv) = Some visits_csv"
  by (simp add: file_uploader_def visits_csv_def file_ext_visits)

lemma accepts_scan: "file_uploader [''csv'', ''xlsx''] (Some scan_xlsx) = Some scan_xlsx"
  by (simp add: file_uploader_def scan_xlsx_def file_ext_scan)

lemma small_table_counts:
  "len_df small_table = 2" "len_columns small_table = 2" "missing_values small_table = 1"
  by (simp_all add: len_df_def len_columns_def missing_values_def sum_series_def sum_frame_def
      isnull_def small_table_def)

lemma str_of_nat_examples: "str_of_nat 100 = ''100''" "str_of_nat 5 = ''5''" "str_of_nat 3 = ''3''"
  by (simp_all add: str_of_nat.simps digit_char_def)

lemma lower_labels:
  "lower ''Standard'' = ''standard''" "lower ''Detailed'' = ''detailed''"
  by (simp_all add: lower_def lower_char_def)

subsection \<open>What a block appends to the display, and that it leaves the files alone\<close>

lemma say_appends: "ui (snd (say es w)) = ui w @ es"
  by (simp add: say_def emits_def)

lemma say_appends_ex: "\<exists>es'. ui (snd (say es w)) = ui w @ es'"
  by (simp add: say_appends)

lemma plot_appends: "\<exists>es. ui (snd (plot env c w)) = ui w @ es"
  by (simp add: plot_def emit_def split: option.splits)

lemma seq_appends:
  assumes "\<And>w. \<exists>es. ui (snd (a w)) = ui w @ es" and "\<And>w. \<exists>es. ui (snd (b w)) = ui w @ es"
  shows "\<exists>es. ui (snd (seq a b w)) = ui w @ es"
proof (cases "a w")
  case (Pair x w1)
  obtain es where es: "ui w1 = ui w @ es"
    using assms(1) [of w] Pair by auto
  show ?thesis
  proof (cases x)
    case None
    obtain es' where "ui (snd (b w1)) = ui w1 @ es'"
      using assms(2) [of w1] by auto
    then show ?thesis using Pair None es by (simp add: seq_def)
  next
    case (Some e)
    then show ?thesis using Pair es by (simp add: seq_def)
  qed
qed

lemma visualizations_appends: "\<exists>es. ui (snd (visualizations_tab env n d w)) = ui w @ es"
  unfolding visualizations_tab_def Let_def
  by (intro seq_appends say_appends_ex plot_appends)

lemma predictions_appends: "\<exists>es. ui (snd (predictions_tab env res w)) = ui w @ es"
  unfolding predictions_tab_def
  by (cases "predictions res"; cases "confusion_matrix res")
     (simp_all add: say_appends_ex seq_appends plot_appends)

lemma run_analysis_appends: "\<exists>es. ui (snd (run_analysis_block env inp d w)) = ui w @ es"
proof (cases "analyze env d (analysis_label (analysis_type inp))")
  case (Inl e)
  then show ?thesis by (simp add: run_analysis_block_def)
next
  case (Inr res)
  have "\<exists>es. ui (snd (seq (say (St_tabs [bar_chart @ '' Insights'', chart_up @ '' Visualizations'',
                             dart @ '' Predictions''] # insights_tab res))
            (seq (visualizations_tab env (feature_choice inp) d)
              (seq (predictions_tab env res)
                (say [St_success (''Analysis complete! '' @ party)])))
            (w\<lparr>session := (session w)\<lparr>analysis_results := Some res\<rparr>\<rparr>))) =
          ui (w\<lparr>session := (session w)\<lparr>analysis_results := Some res\<rparr>\<rparr>) @ es"
    by (intro seq_appends say_appends_ex visualizations_appends predictions_appends)
  then show ?thesis using Inr by (simp add: run_analysis_block_def)
qed





subsection \<open>The store keeps its invariant\<close>

lemma find_fresh:
  "list_all (\<lambda>r. rid r < n) rs \<Longrightarrow> find (\<lambda>r. rid r = n) (rs @ [r']) = (if rid r' = n then Some r' else None)"
  by (induction rs) auto

lemma empty_store_ok: "store_ok empty_store"
  by (simp add: store_ok_def empty_store_def)

lemma one_report_store_ok: "store_ok one_report_store"
  by (simp add: store_ok_def one_report_store_def)

lemma save_report_keeps_ok:
  assumes "store_ok st" and "save_report st fname path rtype res md = Inr (i, st')"
  shows "store_ok st'"
proof -
  have av: "available st" using assms(2) by (auto simp add: save_report_def split: if_splits)
  have st': "st' = st\<lparr>reports := reports st @
       [\<lparr>rid = next_id st, filename = fname, report_path = path, report_type = rtype,
         stored_results = res, metadata = md, created_at = clock st\<rparr>],
       next_id := next_id st + 1\<rparr>"
    using assms(2) av by (auto simp add: save_report_def)
  have lt: "\<forall>r\<in>set (reports st). rid r < next_id st"
    using assms(1) by (simp add: store_ok_def list_all_iff)
  then have "next_id st \<notin> rid ` set (reports st)" by auto
  then show ?thesis
    using assms(1) lt unfolding st' by (auto simp add: store_ok_def list_all_iff less_Suc_eq)
qed

lemma save_quick_summary_keeps_ok:
  assumes "store_ok st" and "save_quick_summary st i txt = Inr st'"
  shows "store_ok st'"
  using assms
  by (auto simp add: save_quick_summary_def store_ok_def list_all_iff split: if_splits)

section \<open>A failed upload\<close>

lemma disk_write_broken:
  "disk_write fs ''uploads/broken.csv'' b = (None, AList.update ''uploads/broken.csv'' b fs)"
  by (simp add: disk_write_def)

lemma disk_write_nested:
  "disk_write fs ''uploads/sub/b.csv'' b = (Some (no_such_file ''uploads/sub/b.csv''), fs)"
  by (simp add: disk_write_def)

lemma upload_write_failure:
  assumes "file_uploader [''csv''] (uploaded_file inp) = Some f"
    and "write_file env (files w) (path_join ''uploads'' (up_name f)) (up_bytes f) = (Some e, fs)"
  shows "show_upload_and_analyze env inp w =
           (None,
            emit (St_error (''Error processing file: '' @ str e))
              (emit (St_title (''Medical Data Analysis '' @ microscope)) w)\<lparr>files := fs\<rparr>)"
  using assms
  by (simp add: show_upload_and_analyze_def upload_try_def Let_def emit_def)

lemma upload_nested_example:
  "show_upload_and_analyze failing_env upload_nested start_world =
     (None,
      start_world
        \<lparr>ui := [St_title (''Medical Data Analysis '' @ microscope),
                 St_error (''Error processing file: [Errno 2] No such file or directory: '' @
                           quoted ''uploads/sub/b.csv'')]\<rparr>)"
proof -
  have a: "file_uploader [''csv''] (uploaded_file upload_nested) = Some nested_csv"
    by (simp add: file_uploader_def upload_nested_def nested_csv_def file_ext_def lower_char_def)
  have b: "write_file failing_env (files start_world) (path_join ''uploads'' (up_name nested_csv))
             (up_bytes nested_csv) = (Some (no_such_file ''uploads/sub/b.csv''), files start_world)"
    by (simp add: failing_env_def nested_csv_def path_join_def disk_write_nested)
  show ?thesis
    unfolding upload_write_failure [OF a b]
    by (simp add: emit_def no_such_file_def start_world_def)
qed

lemma upload_parse_failure_result:
  assumes "file_uploader [''csv''] (uploaded_file inp) = Some f"
    and "write_file env (files w) (path_join ''uploads'' (up_name f)) (up_bytes f) =
           (None, AList.update (path_join ''uploads'' (up_name f)) (up_bytes f) (files w))"
    and "read_csv env (up_bytes f) = Inl e"
  shows "show_upload_and_analyze env inp w =
           (None,
            emit (St_error (''Error processing file: '' @ str e))
              (emit (St_title (''Medical Data Analysis '' @ microscope)) w)
                \<lparr>files := AList.update (path_join ''uploads'' (up_name f)) (up_bytes f) (files w),
                 session := (session w)\<lparr>current_file := Some (path_join ''uploads'' (up_name f))\<rparr>\<rparr>)"
  using assms
  by (simp add: show_upload_and_analyze_def upload_try_def read_csv_file_def Let_def
      update_conv' emit_def)

text \<open>
  C1, as the code has it. When the bytes of the file that the uploader accepted have been
  written to the upload area and the file cannot be parsed, the page does not raise: it
  shows the title and the message \<^verbatim>\<open>Error processing file: ...\<close> with the text of the
  parser's exception. The table and the analysis result of the session, and the store, are
  as they were before the run. The current-file reference is not left alone: the path of
  the written file has been stored in the session before the parser ran.
\<close>

theorem C1_upload_parse_failure:
  assumes "file_uploader [''csv''] (uploaded_file inp) = Some f"
    and "write_file env (files w) (path_join ''uploads'' (up_name f)) (up_bytes f) =
           (None, AList.update (path_join ''uploads'' (up_name f)) (up_bytes f) (files w))"
    and "read_csv env (up_bytes f) = Inl e"
  shows "fst (show_upload_and_analyze env inp w) = None \<and>
         ui (snd (show_upload_and_analyze env inp w)) =
           ui w @ [St_title (''Medical Data Analysis '' @ [CHR 0xF0, CHR 0x9F, CHR 0x94, CHR 0xAC]),
                   St_error (''Error processing file: '' @ str e)] \<and>
         df (session (snd (show_upload_and_analyze env inp w))) = df (session w) \<and>
         analysis_results (session (snd (show_upload_and_analyze env inp w))) =
           analysis_results (session w) \<and>
         db (snd (show_upload_and_analyze env inp w)) = db w \<and>
         current_file (session (snd (show_upload_and_analyze env inp w))) =
           Some (path_join ''uploads'' (up_name f)) \<and>
         map_of (files (snd (show_upload_and_analyze env inp w)))
           (path_join ''uploads'' (up_name f)) = Some (up_bytes f)"
  by (simp add: upload_parse_failure_result [OF assms] emit_def update_conv' microscope_def)

theorem C1_upload_parse_failure_witness:
  "file_uploader [''csv''] (uploaded_file upload_broken) = Some broken_csv \<and>
   write_file failing_env (files start_world) (path_join ''uploads'' (up_name broken_csv))
       (up_bytes broken_csv) =
     (None, [(''uploads/broken.csv'', ragged_bytes)]) \<and>
   read_csv failing_env (up_bytes broken_csv) = Inl tokenizing_error \<and>
   fst (show_upload_and_analyze failing_env upload_broken start_world) = None \<and>
   ui (snd (show_upload_and_analyze failing_env upload_broken start_world)) =
     [St_title (''Medical Data Analysis '' @ [CHR 0xF0, CHR 0x9F, CHR 0x94, CHR 0xAC]),
      St_error (''Error processing file: Error tokenizing data. C error: Expected 2 fields in line 3, saw 3''
                  @ [CHR 0x0A])] \<and>
   df (session (snd (show_upload_and_analyze failing_env upload_broken start_world))) = None \<and>
   analysis_results (session (snd (show_upload_and_analyze failing_env upload_broken start_world)))
     = None"
proof -
  have a: "file_uploader [''csv''] (uploaded_file upload_broken) = Some broken_csv"
    by (simp add: file_uploader_def upload_broken_def broken_csv_def file_ext_broken)
  have p: "path_join ''uploads'' (up_name broken_csv) = ''uploads/broken.csv''"
    by (simp add: path_join_def broken_csv_def)
  have p0: "path_join ''uploads'' ''broken.csv'' = ''uploads/broken.csv''"
    by (simp add: path_join_def)
  have b: "write_file failing_env (files start_world) (path_join ''uploads'' (up_name broken_csv))
       (up_bytes broken_csv) =
     (None, AList.update (path_join ''uploads'' (up_name broken_csv)) (up_bytes broken_csv)
              (files start_world))"
    unfolding p by (simp add: failing_env_def disk_write_broken)
  have c: "read_csv failing_env (up_bytes broken_csv) = Inl tokenizing_error"
    by (simp add: failing_env_def)
  show ?thesis
    using a b c C1_upload_parse_failure [OF a b c]
    by (simp add: p0 start_world_def fresh_session_def broken_csv_def tokenizing_error_def
        newline_def microscope_def)
qed

text \<open>
  The claim as it is written, that the failed upload leaves no current-file reference
  in the session, fails on a fresh session and a file whose third line has a field too
  many: after the run the session refers to the file that could not be parsed.
\<close>

theorem C1_current_file_counterexample:
  "current_file (session start_world) = None \<and>
   up_bytes broken_csv = ''a,b'' @ [CHR 0x0A] @ ''1,2'' @ [CHR 0x0A] @ ''3,4,5'' @ [CHR 0x0A] \<and>
   current_file (session (snd (show_upload_and_analyze failing_env upload_broken start_world)))
     = Some ''uploads/broken.csv''"
  by (simp add: show_upload_and_analyze_def upload_try_def read_csv_file_def Let_def
      update_conv' emit_def file_uploader_def upload_broken_def broken_csv_def file_ext_broken
      failing_env_def start_world_def fresh_session_def path_join_def disk_write_broken
      ragged_bytes_def newline_def)

section \<open>The quick summary\<close>

lemma save_summary_error:
  "error res \<noteq> None \<Longrightarrow>
     save_summary f d res w =
       (None, emit (St_error ''Failed to generate summary. Please try again.'') w)"
  by (cases "error res") (simp_all add: save_summary_def)

lemma save_summary_unavailable:
  "error res = None \<Longrightarrow> \<not> available (db w) \<Longrightarrow>
     save_summary f d res w =
       (Some unavailable,
        emits (case insights res of None \<Rightarrow> [] | Some xs \<Rightarrow> map St_info xs) w)"
  by (simp add: save_summary_def save_report_def Let_def emits_def)

lemma save_summary_saved:
  assumes "error res = None" and "available (db w)"
  shows "save_summary f d res w =
       (None,
        emit (St_success (''Summary saved to database! '' @ party))
          (emits (case insights res of None \<Rightarrow> [] | Some xs \<Rightarrow> map St_info xs) w)
            \<lparr>db := (db w)
               \<lparr>reports := reports (db w) @
                  [\<lparr>rid = next_id (db w), filename = up_name f, report_path = '''',
                    report_type = ''quick_summary'', stored_results = res,
                    metadata = quick_metadata d f, created_at = clock (db w)\<rparr>],
                next_id := next_id (db w) + 1,
                quick_summaries := quick_summaries (db w) @
                  [\<lparr>qid = next_summary_id (db w), report_id = next_id (db w),
                    summary_text = quick_summary_text res,
                    summary_created_at = clock (db w)\<rparr>],
                next_summary_id := next_summary_id (db w) + 1\<rparr>\<rparr>)"
  using assms
  by (simp add: save_summary_def save_report_def save_quick_summary_def Let_def emits_def emit_def)

lemma save_summary_appends: "\<exists>es. ui (snd (save_summary f d res w)) = ui w @ es"
proof (cases "error res = None")
  case False
  then show ?thesis by (simp add: save_summary_error emit_def)
next
  case True
  show ?thesis
  proof (cases "available (db w)")
    case False
    with True show ?thesis by (simp add: save_summary_unavailable emits_def)
  next
    case avail: True
    show ?thesis by (simp add: save_summary_saved [OF True avail] emits_def emit_def)
  qed
qed

lemma quick_summary_parsed:
  assumes "file_uploader [''csv'', ''xlsx''] chosen = Some f"
    and "read_csv env (up_bytes f) = Inr d"
    and "analyze env d ''basic'' = Inr res"
  shows "show_quick_summary env chosen w =
           save_summary f d res
             (emits
                [St_title (''Quick Summary '' @ clipboard),
                 St_markdown ''### Dataset Overview'',
                 St_metric ''Total Records'' (len_df d),
                 St_metric ''Features'' (len_columns d),
                 St_metric ''Missing Values'' (missing_values d),
                 St_markdown ''### Quick Insights''] w)"
  using assms by (simp add: show_quick_summary_def Let_def emits_def emit_def)

lemma quick_summary_db_cases:
  "db (snd (show_quick_summary env chosen w)) = db w \<or>
   (\<exists>f d res.
      file_uploader [''csv'', ''xlsx''] chosen = Some f \<and>
      read_csv env (up_bytes f) = Inr d \<and>
      analyze env d ''basic'' = Inr res \<and>
      error res = None \<and> available (db w))"
  by (auto simp add: show_quick_summary_def save_summary_def save_report_def Let_def
      emits_def emit_def split: option.splits sum.splits)

lemma quick_summary_saved:
  assumes "file_uploader [''csv'', ''xlsx''] chosen = Some f"
    and "read_csv env (up_bytes f) = Inr d"
    and "analyze env d ''basic'' = Inr res"
    and "error res = None" and "available (db w)"
  shows "fst (show_quick_summary env chosen w) = None"
    and "db (snd (show_quick_summary env chosen w)) =
           (db w)
             \<lparr>reports := reports (db w) @
                [\<lparr>rid = next_id (db w), filename = up_name f, report_path = '''',
                  report_type = ''quick_summary'', stored_results = res,
                  metadata = quick_metadata d f, created_at = clock (db w)\<rparr>],
              next_id := next_id (db w) + 1,
              quick_summaries := quick_summaries (db w) @
                [\<lparr>qid = next_summary_id (db w), report_id = next_id (db w),
                  summary_text = quick_summary_text res,
                  summary_created_at = clock (db w)\<rparr>],
              next_summary_id := next_summary_id (db w) + 1\<rparr>"
  using assms(4,5)
  by (simp_all add: quick_summary_parsed [OF assms(1-3)] save_summary_saved emits_def emit_def)

lemma good_run:
  "file_uploader [''csv'', ''xlsx''] (Some visits_csv) = Some visits_csv"
  "read_csv good_env (up_bytes visits_csv) = Inr small_table"
  "analyze good_env small_table ''basic'' = Inr small_result"
  "error small_result = None" "available (db start_world)"
proof -
  show "file_uploader [''csv'', ''xlsx''] (Some visits_csv) = Some visits_csv"
    by (rule accepts_visits)
qed (simp_all add: good_env_def visits_csv_def small_result_def start_world_def empty_store_def)

lemma bare_run:
  "file_uploader [''csv'', ''xlsx''] (Some visits_csv) = Some visits_csv"
  "read_csv bare_env (up_bytes visits_csv) = Inr small_table"
  "analyze bare_env small_table ''basic'' = Inr bare_result"
  "error bare_result = None" "available (db start_world)"
proof -
  show "file_uploader [''csv'', ''xlsx''] (Some visits_csv) = Some visits_csv"
    by (rule accepts_visits)
qed (simp_all add: bare_env_def good_env_def visits_csv_def bare_result_def start_world_def
    empty_store_def)

text \<open>
  C2. In the Quick Summary flow, when the result of the analysis carries the key
  \<^verbatim>\<open>error\<close>, the page ends normally, the store is the store from before the run (no
  Report Record and no Quick Summary is saved), and after the overview of the dataset
  the page shows the error message \<^verbatim>\<open>Failed to generate summary. Please try again.\<close> and
  nothing else.
\<close>

theorem C2_quick_summary_error:
  assumes "file_uploader [''csv'', ''xlsx''] chosen = Some f"
    and "read_csv env (up_bytes f) = Inr d"
    and "analyze env d ''basic'' = Inr res"
    and "error res \<noteq> None"
  shows "fst (show_quick_summary env chosen w) = None \<and>
         db (snd (show_quick_summary env chosen w)) = db w \<and>
         ui (snd (show_quick_summary env chosen w)) =
           ui w @
           [St_title (''Quick Summary '' @ clipboard),
            St_markdown ''### Dataset Overview'',
            St_metric ''Total Records'' (len_df d),
            St_metric ''Features'' (len_columns d),
            St_metric ''Missing Values'' (missing_values d),
            St_markdown ''### Quick Insights'',
            St_error ''Failed to generate summary. Please try again.'']"
  using assms(4)
  by (simp add: quick_summary_parsed [OF assms(1-3)] save_summary_error emits_def emit_def)

theorem C2_quick_summary_error_witness:
  "file_uploader [''csv'', ''xlsx''] (Some visits_csv) = Some visits_csv \<and>
   read_csv error_env (up_bytes visits_csv) = Inr small_table \<and>
   analyze error_env small_table ''basic'' = Inr failed_result \<and>
   error failed_result = Some ''model unavailable'' \<and>
   fst (show_quick_summary error_env (Some visits_csv) start_world) = None \<and>
   db (snd (show_quick_summary error_env (Some visits_csv) start_world)) = empty_store \<and>
   ui (snd (show_quick_summary error_env (Some visits_csv) start_world)) =
     [St_title (''Quick Summary '' @ clipboard),
      St_markdown ''### Dataset Overview'',
      St_metric ''Total Records'' 2,
      St_metric ''Features'' 2,
      St_metric ''Missing Values'' 1,
      St_markdown ''### Quick Insights'',
      St_error ''Failed to generate summary. Please try again.'']"
proof -
  have b: "read_csv error_env (up_bytes visits_csv) = Inr small_table"
    by (simp add: error_env_def good_env_def visits_csv_def)
  have c: "analyze error_env small_table ''basic'' = Inr failed_result"
    by (simp add: error_env_def good_env_def)
  have d: "error failed_result \<noteq> None"
    by (simp add: failed_result_def)
  show ?thesis
    using b c C2_quick_summary_error [OF accepts_visits b c d, of start_world]
    by (simp add: accepts_visits failed_result_def start_world_def small_table_counts)
qed

text \<open>
  C5. A run of the Quick Summary page leaves the Report Records as they were or adds
  exactly one, and the one it adds has the report type \<^verbatim>\<open>quick_summary\<close>, an empty report
  file path, and as metadata exactly the three entries \<^verbatim>\<open>rows\<close>, \<^verbatim>\<open>columns\<close> and
  \<^verbatim>\<open>file_type\<close>: the number of rows and of columns of the parsed table and the type of
  the uploaded file.
\<close>

theorem C5_quick_summary_record:
  "reports (db (snd (show_quick_summary env chosen w))) = reports (db w) \<or>
   (\<exists>f d r.
      file_uploader [''csv'', ''xlsx''] chosen = Some f \<and>
      read_csv env (up_bytes f) = Inr d \<and>
      reports (db (snd (show_quick_summary env chosen w))) = reports (db w) @ [r] \<and>
      report_type r = ''quick_summary'' \<and>
      report_path r = '''' \<and>
      metadata r =
        [(''rows'', MInt (nrows d)), (''columns'', MInt (length (columns d))),
         (''file_type'', MStr (up_type f))])"
  using quick_summary_db_cases [of env chosen w]
proof
  assume "db (snd (show_quick_summary env chosen w)) = db w"
  then show ?thesis by simp
next
  assume "\<exists>f d res.
      file_uploader [''csv'', ''xlsx''] chosen = Some f \<and>
      read_csv env (up_bytes f) = Inr d \<and>
      analyze env d ''basic'' = Inr res \<and>
      error res = None \<and> available (db w)"
  then obtain f d res where h:
      "file_uploader [''csv'', ''xlsx''] chosen = Some f"
      "read_csv env (up_bytes f) = Inr d"
      "analyze env d ''basic'' = Inr res"
      "error res = None" "available (db w)"
    by blast
  show ?thesis
    using h(1,2)
    by (simp add: quick_summary_saved(2) [OF h] quick_metadata_def len_df_def len_columns_def)
qed

theorem C5_quick_summary_record_witness:
  "reports (db (snd (show_quick_summary good_env (Some visits_csv) start_world))) =
     reports (db start_world) @
       [\<lparr>rid = 1, filename = ''visits.csv'', report_path = '''',
         report_type = ''quick_summary'', stored_results = small_result,
         metadata = [(''rows'', MInt 2), (''columns'', MInt 2), (''file_type'', MStr ''text/csv'')],
         created_at = 0\<rparr>]"
  using C5_quick_summary_record [of good_env "Some visits_csv" start_world]
  unfolding quick_summary_saved(2) [OF good_run]
  by (simp add: quick_metadata_def small_table_counts visits_csv_def start_world_def
      empty_store_def)

text \<open>
  C6. Whenever a run of the Quick Summary page changes the Quick Summaries, the store
  after the run is the result of \<open>save_quick_summary\<close> on the store that a completed
  \<open>save_report\<close> of the same run returned, called with the identifier that this
  \<open>save_report\<close> returned: the parent Report Record is the last record of that store
  and carries the identifier, the new Quick Summary references it, and both tables are
  otherwise as the two calls left them.
\<close>

theorem C6_summary_after_report:
  assumes "quick_summaries (db (snd (show_quick_summary env chosen w))) \<noteq> quick_summaries (db w)"
  shows "\<exists>f d res new_id st1 r q.
           save_report (db w) (up_name f) '''' ''quick_summary'' res (quick_metadata d f) =
             Inr (new_id, st1) \<and>
           save_quick_summary st1 new_id (quick_summary_text res) =
             Inr (db (snd (show_quick_summary env chosen w))) \<and>
           reports st1 = reports (db w) @ [r] \<and> rid r = new_id \<and>
           quick_summaries st1 = quick_summaries (db w) \<and>
           reports (db (snd (show_quick_summary env chosen w))) = reports st1 \<and>
           quick_summaries (db (snd (show_quick_summary env chosen w))) =
             quick_summaries (db w) @ [q] \<and>
           report_id q = new_id"
  using quick_summary_db_cases [of env chosen w]
proof
  assume "db (snd (show_quick_summary env chosen w)) = db w"
  with assms show ?thesis by simp
next
  assume "\<exists>f d res.
      file_uploader [''csv'', ''xlsx''] chosen = Some f \<and>
      read_csv env (up_bytes f) = Inr d \<and>
      analyze env d ''basic'' = Inr res \<and>
      error res = None \<and> available (db w)"
  then obtain f d res where h:
      "file_uploader [''csv'', ''xlsx''] chosen = Some f"
      "read_csv env (up_bytes f) = Inr d"
      "analyze env d ''basic'' = Inr res"
      "error res = None" "available (db w)"
    by blast
  define r where "r =
     \<lparr>rid = next_id (db w), filename = up_name f, report_path = '''',
      report_type = ''quick_summary'', stored_results = res,
      metadata = quick_metadata d f, created_at = clock (db w)\<rparr>"
  define st1 where "st1 = (db w)\<lparr>reports := reports (db w) @ [r], next_id := next_id (db w) + 1\<rparr>"
  define q where "q =
     \<lparr>qid = next_summary_id (db w), report_id = next_id (db w),
      summary_text = quick_summary_text res, summary_created_at = clock (db w)\<rparr>"
  have a: "save_report (db w) (up_name f) '''' ''quick_summary'' res (quick_metadata d f) =
             Inr (next_id (db w), st1)"
    using h(5) by (simp add: save_report_def st1_def r_def)
  have b: "save_quick_summary st1 (next_id (db w)) (quick_summary_text res) =
             Inr (db (snd (show_quick_summary env chosen w)))"
    using h(5)
    by (simp add: quick_summary_saved(2) [OF h] save_quick_summary_def st1_def r_def)
  have c: "reports st1 = reports (db w) @ [r]" "rid r = next_id (db w)"
       "quick_summaries st1 = quick_summaries (db w)"
    by (simp_all add: st1_def r_def)
  have d: "reports (db (snd (show_quick_summary env chosen w))) = reports st1"
       "quick_summaries (db (snd (show_quick_summary env chosen w))) =
          quick_summaries (db w) @ [q]"
       "report_id q = next_id (db w)"
    by (simp_all add: quick_summary_saved(2) [OF h] st1_def r_def q_def)
  from a b c d show ?thesis by blast
qed

theorem C6_summary_after_report_witness:
  "quick_summaries (db (snd (show_quick_summary good_env (Some visits_csv) start_world))) \<noteq>
     quick_summaries (db start_world) \<and>
   (\<exists>f d res new_id st1 r q.
      save_report (db start_world) (up_name f) '''' ''quick_summary'' res (quick_metadata d f) =
        Inr (new_id, st1) \<and>
      save_quick_summary st1 new_id (quick_summary_text res) =
        Inr (db (snd (show_quick_summary good_env (Some visits_csv) start_world))) \<and>
      reports st1 = reports (db start_world) @ [r] \<and> rid r = new_id \<and>
      quick_summaries st1 = quick_summaries (db start_world) \<and>
      reports (db (snd (show_quick_summary good_env (Some visits_csv) start_world))) = reports st1 \<and>
      quick_summaries (db (snd (show_quick_summary good_env (Some visits_csv) start_world))) =
        quick_summaries (db start_world) @ [q] \<and>
      report_id q = new_id)"
proof -
  have a: "quick_summaries (db (snd (show_quick_summary good_env (Some visits_csv) start_world))) \<noteq>
     quick_summaries (db start_world)"
    by (simp add: quick_summary_saved(2) [OF good_run])
  show ?thesis
    using a C6_summary_after_report [OF a] by blast
qed

text \<open>
  C9. The uploader of the Quick Summary page accepts a file whose extension is \<^verbatim>\<open>csv\<close> or
  \<^verbatim>\<open>xlsx\<close>, and the accepted file goes to the CSV parser. When the parser raises, the
  exception leaves the page: the run ends with that exception, the page has shown its
  title and no error message, and the store is untouched.
\<close>

theorem C9_quick_summary_parse_exception:
  assumes "file_ext (up_name f) = ''csv'' \<or> file_ext (up_name f) = ''xlsx''"
    and "read_csv env (up_bytes f) = Inl e"
  shows "file_uploader [''csv'', ''xlsx''] (Some f) = Some f \<and>
         show_quick_summary env (Some f) w =
           (Some e, emit (St_title (''Quick Summary '' @ clipboard)) w) \<and>
         ui (snd (show_quick_summary env (Some f) w)) =
           ui w @ [St_title (''Quick Summary '' @ clipboard)] \<and>
         db (snd (show_quick_summary env (Some f) w)) = db w"
proof -
  have a: "file_uploader [''csv'', ''xlsx''] (Some f) = Some f"
    using assms(1) by (simp add: quick_accepts)
  have "show_quick_summary env (Some f) w =
          (Some e, emit (St_title (''Quick Summary '' @ clipboard)) w)"
    using a assms(2) by (simp add: show_quick_summary_def Let_def)
  then show ?thesis using a by (simp add: emit_def)
qed

theorem C9_quick_summary_parse_exception_witness:
  "file_ext (up_name scan_xlsx) = ''xlsx'' \<and>
   read_csv good_env (up_bytes scan_xlsx) = Inl (FormatError ''Error tokenizing data'') \<and>
   show_quick_summary good_env (Some scan_xlsx) start_world =
     (Some (FormatError ''Error tokenizing data''),
      start_world\<lparr>ui := [St_title (''Quick Summary '' @ clipboard)]\<rparr>)"
proof -
  have a: "file_ext (up_name scan_xlsx) = ''csv'' \<or> file_ext (up_name scan_xlsx) = ''xlsx''"
    by (simp add: scan_xlsx_def file_ext_scan)
  have b: "read_csv good_env (up_bytes scan_xlsx) = Inl (FormatError ''Error tokenizing data'')"
    by (simp add: good_env_def scan_xlsx_def)
  show ?thesis
    using b C9_quick_summary_parse_exception [OF a b, of start_world]
    by (simp add: scan_xlsx_def file_ext_scan emit_def start_world_def)
qed

text \<open>
  C10. A run of the Quick Summary page leaves the Quick Summaries as they were or adds
  exactly one, whose text is the insights of the analysis result joined by newline
  characters, and the empty string when the result has no key \<^verbatim>\<open>insights\<close>.
\<close>

theorem C10_summary_text:
  "quick_summaries (db (snd (show_quick_summary env chosen w))) = quick_summaries (db w) \<or>
   (\<exists>f d res q.
      file_uploader [''csv'', ''xlsx''] chosen = Some f \<and>
      read_csv env (up_bytes f) = Inr d \<and>
      analyze env d ''basic'' = Inr res \<and>
      quick_summaries (db (snd (show_quick_summary env chosen w))) =
        quick_summaries (db w) @ [q] \<and>
      summary_text q =
        (case insights res of None \<Rightarrow> '''' | Some xs \<Rightarrow> join newline xs))"
  using quick_summary_db_cases [of env chosen w]
proof
  assume "db (snd (show_quick_summary env chosen w)) = db w"
  then show ?thesis by simp
next
  assume "\<exists>f d res.
      file_uploader [''csv'', ''xlsx''] chosen = Some f \<and>
      read_csv env (up_bytes f) = Inr d \<and>
      analyze env d ''basic'' = Inr res \<and>
      error res = None \<and> available (db w)"
  then obtain f d res where h:
      "file_uploader [''csv'', ''xlsx''] chosen = Some f"
      "read_csv env (up_bytes f) = Inr d"
      "analyze env d ''basic'' = Inr res"
      "error res = None" "available (db w)"
    by blast
  show ?thesis
    using h(1-3)
    by (simp add: quick_summary_saved(2) [OF h] quick_summary_text_def split: option.splits)
qed

theorem C10_summary_text_witness:
  "map summary_text
     (quick_summaries (db (snd (show_quick_summary good_env (Some visits_csv) start_world)))) =
     [''Two records'' @ [CHR 0x0A] @ ''One value is missing''] \<and>
   map summary_text
     (quick_summaries (db (snd (show_quick_summary bare_env (Some visits_csv) start_world)))) =
     ['''']"
  using C10_summary_text [of good_env "Some visits_csv" start_world]
    C10_summary_text [of bare_env "Some visits_csv" start_world]
  unfolding quick_summary_saved(2) [OF good_run] quick_summary_saved(2) [OF bare_run]
  by (simp add: quick_summary_text_def small_result_def bare_result_def newline_def
      start_world_def empty_store_def)

section \<open>The displayed statistics\<close>

lemma count_by_index: "length (filter (\<lambda>i. P (xs ! i)) [0..<length xs]) = length (filter P xs)"
proof -
  have "filter P xs = filter P (map (\<lambda>i. xs ! i) [0..<length xs])"
    by (simp add: map_nth)
  also have "length \<dots> = length (filter (\<lambda>i. P (xs ! i)) [0..<length xs])"
    by (simp add: filter_map comp_def)
  finally show ?thesis by simp
qed

lemma sum_by_index: "sum_list (map (\<lambda>j. f (xs ! j)) [0..<length xs]) = sum_list (map f xs)"
proof -
  have "map f xs = map f (map (\<lambda>j. xs ! j) [0..<length xs])"
    by (simp add: map_nth)
  then show ?thesis by (simp add: comp_def)
qed

lemma count_product:
  "length (filter P (List.product xs ys)) =
     sum_list (map (\<lambda>x. length (filter (\<lambda>y. P (x, y)) ys)) xs)"
  by (induction xs) (simp_all add: filter_map comp_def)

lemma missing_values_concat:
  "missing_values d = sum_list (map (\<lambda>c. length (filter (\<lambda>x. x = NA) (col_cells c))) (columns d))"
  by (simp add: missing_values_def sum_series_def sum_frame_def isnull_def comp_def filter_map)

lemma missing_values_cells:
  assumes "table_ok d"
  shows "missing_values d = missing_cells d"
proof -
  have len: "\<And>j. j < length (columns d) \<Longrightarrow> length (col_cells (columns d ! j)) = nrows d"
    using assms by (simp add: table_ok_def list_all_length)
  have "missing_cells d =
          sum_list (map (\<lambda>j. length (filter (\<lambda>i. col_cells (columns d ! j) ! i = NA) [0..<nrows d]))
            [0..<length (columns d)])"
    by (simp add: missing_cells_def count_product)
  also have "\<dots> =
          sum_list (map (\<lambda>j. length (filter (\<lambda>x. x = NA) (col_cells (columns d ! j))))
            [0..<length (columns d)])"
  proof (rule arg_cong [where f = sum_list], rule map_cong [OF refl])
    fix j assume "j \<in> set [0..<length (columns d)]"
    then have "length (col_cells (columns d ! j)) = nrows d" using len by simp
    then show "length (filter (\<lambda>i. col_cells (columns d ! j) ! i = NA) [0..<nrows d]) =
               length (filter (\<lambda>x. x = NA) (col_cells (columns d ! j)))"
      using count_by_index [of "\<lambda>x. x = NA" "col_cells (columns d ! j)"] by simp
  qed
  also have "\<dots> = sum_list (map (\<lambda>c. length (filter (\<lambda>x. x = NA) (col_cells c))) (columns d))"
    by (rule sum_by_index)
  finally show ?thesis by (simp add: missing_values_concat)
qed

lemma upload_shows_overview:
  assumes "file_uploader [''csv''] (uploaded_file inp) = Some f"
    and "write_file env (files w) (path_join ''uploads'' (up_name f)) (up_bytes f) =
           (None, AList.update (path_join ''uploads'' (up_name f)) (up_bytes f) (files w))"
    and "read_csv env (up_bytes f) = Inr d"
  shows "\<exists>rest. ui (snd (show_upload_and_analyze env inp w)) =
           ui w @ St_title (''Medical Data Analysis '' @ microscope) # data_overview d @ rest"
proof (cases "run_analysis inp")
  case False
  then show ?thesis using assms
    by (simp add: show_upload_and_analyze_def upload_try_def read_csv_file_def Let_def
        update_conv' emit_def emits_def)
next
  case True
  define w4 where "w4 = emits (data_overview d)
       (w\<lparr>ui := ui w @ [St_title (''Medical Data Analysis '' @ microscope)],
          files := AList.update (path_join ''uploads'' (up_name f)) (up_bytes f) (files w),
          session := (session w)\<lparr>current_file := Some (path_join ''uploads'' (up_name f)),
                                   df := Some d\<rparr>\<rparr>)"
  obtain es where es: "ui (snd (run_analysis_block env inp d w4)) = ui w4 @ es"
    using run_analysis_appends by blast
  obtain x w5 where r: "run_analysis_block env inp d w4 = (x, w5)"
    by (cases "run_analysis_block env inp d w4")
  have page: "show_upload_and_analyze env inp w =
          (case x of
             Some e \<Rightarrow> (None, emit (St_error (''Error processing file: '' @ str e)) w5)
           | None \<Rightarrow> (None, w5))"
    using assms True r [unfolded w4_def]
    by (simp add: show_upload_and_analyze_def upload_try_def read_csv_file_def Let_def
        update_conv' emit_def split: option.splits)
  have "\<exists>extra. ui (snd (show_upload_and_analyze env inp w)) = ui w5 @ extra"
    by (cases x) (simp_all add: page emit_def)
  then show ?thesis using es r by (auto simp add: w4_def emits_def)
qed

lemma quick_shows_overview:
  assumes "file_uploader [''csv'', ''xlsx''] chosen = Some f"
    and "read_csv env (up_bytes f) = Inr d"
  shows "\<exists>rest. ui (snd (show_quick_summary env chosen w)) =
           ui w @
           [St_title (''Quick Summary '' @ clipboard),
            St_markdown ''### Dataset Overview'',
            St_metric ''Total Records'' (len_df d),
            St_metric ''Features'' (len_columns d),
            St_metric ''Missing Values'' (missing_values d)] @ rest"
proof (cases "analyze env d ''basic''")
  case (Inl e)
  then show ?thesis using assms
    by (simp add: show_quick_summary_def Let_def emits_def emit_def)
next
  case (Inr res)
  obtain es where
    "ui (snd (save_summary f d res
               (emits
                  [St_title (''Quick Summary '' @ clipboard),
                   St_markdown ''### Dataset Overview'',
                   St_metric ''Total Records'' (len_df d),
                   St_metric ''Features'' (len_columns d),
                   St_metric ''Missing Values'' (missing_values d),
                   St_markdown ''### Quick Insights''] w))) =
     ui (emits
           [St_title (''Quick Summary '' @ clipboard),
            St_markdown ''### Dataset Overview'',
            St_metric ''Total Records'' (len_df d),
            St_metric ''Features'' (len_columns d),
            St_metric ''Missing Values'' (missing_values d),
            St_markdown ''### Quick Insights''] w) @ es"
    using save_summary_appends by blast
  then show ?thesis
    by (simp add: quick_summary_parsed [OF assms Inr] emits_def)
qed

lemma digit_char_value: "d < 10 \<Longrightarrow> of_char (digit_char d) = (48 + d :: nat)"
proof -
  assume "d < 10"
  then have "d = 0 \<or> d = 1 \<or> d = 2 \<or> d = 3 \<or> d = 4 \<or> d = 5 \<or> d = 6 \<or> d = 7 \<or> d = 8 \<or> d = 9"
    by arith
  then show ?thesis
    by (elim disjE) (simp_all add: digit_char_def)
qed

lemma decimal_value_snoc:
  "decimal_value (s @ [c]) = 10 * decimal_value s + (of_char c - 48)"
  by (simp add: decimal_value_def)

lemma decimal_str_of_nat: "decimal_value (str_of_nat n) = n"
proof (induction n rule: str_of_nat.induct)
  case (1 n)
  show ?case
  proof (cases "n < 10")
    case True
    then have "str_of_nat n = [digit_char n]"
      by (subst str_of_nat.simps) simp
    then show ?thesis
      using True by (simp add: decimal_value_def digit_char_value)
  next
    case False
    then have s: "str_of_nat n = str_of_nat (n div 10) @ [digit_char (n mod 10)]"
      by (subst str_of_nat.simps) simp
    have "decimal_value (str_of_nat (n div 10)) = n div 10"
      using "1.IH" False by simp
    then show ?thesis
      by (simp add: s decimal_value_snoc digit_char_value)
  qed
qed

lemma spaces_literal:
  "spaces 16 = ''                ''"
  "spaces 20 = ''                    ''"
  "spaces 24 = ''                        ''"
  by (simp_all add: spaces_def eval_nat_numeral)

lemma metric_card_literal:
  \<open>metric_card v label =
     [CHR 0x0A] @ ''                    <div class="metric-card">'' @
     [CHR 0x0A] @ ''                        <div class="metric-value">'' @ v @ ''</div>'' @
     [CHR 0x0A] @ ''                        <div class="metric-label">'' @ label @ ''</div>'' @
     [CHR 0x0A] @ ''                    </div>'' @
     [CHR 0x0A] @ ''                ''\<close>
  by (simp add: metric_card_def newline_def spaces_literal)

lemma clinic_table_ok: "table_ok clinic_table"
  by (simp add: table_ok_def clinic_table_def)

lemma clinic_counts:
  "nrows clinic_table = 100" "length (columns clinic_table) = 5"
  "length (columns (select_numeric clinic_table)) = 3"
  "missing_cells clinic_table = 3"
proof -
  have "missing_values clinic_table = 3"
    by (simp add: missing_values_concat clinic_table_def)
  then show "missing_cells clinic_table = 3"
    by (simp add: missing_values_cells [OF clinic_table_ok])
qed (simp_all add: clinic_table_def select_numeric_def)

lemma clinic_upload:
  "file_uploader [''csv''] (uploaded_file upload_clinic) = Some clinic_csv"
  "write_file clinic_env (files start_world) (path_join ''uploads'' (up_name clinic_csv))
       (up_bytes clinic_csv) =
     (None, AList.update (path_join ''uploads'' (up_name clinic_csv)) (up_bytes clinic_csv)
              (files start_world))"
  "read_csv clinic_env (up_bytes clinic_csv) = Inr clinic_table"
  "file_ext (up_name clinic_xlsx) = ''csv'' \<or> file_ext (up_name clinic_xlsx) = ''xlsx''"
  "read_csv clinic_env (up_bytes clinic_xlsx) = Inr clinic_table"
  by (simp_all add: clinic_csv_def clinic_xlsx_def clinic_env_def good_env_def upload_clinic_def
      file_uploader_def file_ext_def lower_char_def path_join_def disk_write_def)

text \<open>
  C3. For a table that satisfies the Table invariant and was parsed from an uploaded
  file, the Upload and Analyze page shows, right after its title, the four cards of the
  template of lines 120 to 151 with the decimal numerals of the number of rows as
  Records, of the number of columns as Features, of the number of numeric columns, and
  of the total count of missing cells as Missing Values; the Quick Summary page, for a
  file named csv or xlsx, shows the number of rows, the number of columns and the total
  count of missing cells as its three metrics. All are functions of the table alone, and
  each numeral denotes its number. The run that follows is the scenario of the
  specification: a table of 100 rows and 5 columns with 3 missing cells is shown as 100,
  5 and 3.
\<close>

theorem C3_displayed_statistics:
  assumes "table_ok d"
    and "file_uploader [''csv''] (uploaded_file inp) = Some f"
    and "write_file env (files w) (path_join ''uploads'' (up_name f)) (up_bytes f) =
           (None, AList.update (path_join ''uploads'' (up_name f)) (up_bytes f) (files w))"
    and "read_csv env (up_bytes f) = Inr d"
    and "file_ext (up_name g) = ''csv'' \<or> file_ext (up_name g) = ''xlsx''"
    and "read_csv env (up_bytes g) = Inr d"
  shows
   \<open>let card = (\<lambda>v label.
          [CHR 0x0A] @ ''                    <div class="metric-card">'' @
          [CHR 0x0A] @ ''                        <div class="metric-value">'' @ v @ ''</div>'' @
          [CHR 0x0A] @ ''                        <div class="metric-label">'' @ label @ ''</div>'' @
          [CHR 0x0A] @ ''                    </div>'' @
          [CHR 0x0A] @ ''                '')
    in (\<exists>rest. ui (snd (show_upload_and_analyze env inp w)) =
            ui w @
            [St_title (''Medical Data Analysis '' @ [CHR 0xF0, CHR 0x9F, CHR 0x94, CHR 0xAC]),
             St_html (card (str_of_nat (nrows d)) ''Records''),
             St_html (card (str_of_nat (length (columns d))) ''Features''),
             St_html (card (str_of_nat (length (columns (select_numeric d)))) ''Numeric Cols''),
             St_html (card (str_of_nat (missing_cells d)) ''Missing Values'')] @ rest) \<and>
       (\<exists>rest. ui (snd (show_quick_summary env (Some g) w)) =
            ui w @
            [St_title (''Quick Summary '' @ [CHR 0xF0, CHR 0x9F, CHR 0x93, CHR 0x8B]),
             St_markdown ''### Dataset Overview'',
             St_metric ''Total Records'' (nrows d),
             St_metric ''Features'' (length (columns d)),
             St_metric ''Missing Values'' (missing_cells d)] @ rest) \<and>
       decimal_value (str_of_nat (nrows d)) = nrows d \<and>
       decimal_value (str_of_nat (length (columns d))) = length (columns d) \<and>
       decimal_value (str_of_nat (length (columns (select_numeric d)))) =
         length (filter (\<lambda>c. col_dtype c = Int64 \<or> col_dtype c = Float64) (columns d)) \<and>
       decimal_value (str_of_nat (missing_cells d)) = missing_cells d\<close>
proof -
  obtain rest where
    "ui (snd (show_upload_and_analyze env inp w)) =
       ui w @ St_title (''Medical Data Analysis '' @ microscope) # data_overview d @ rest"
    using upload_shows_overview [OF assms(2,3,4)] by blast
  then have up: "\<exists>rest. ui (snd (show_upload_and_analyze env inp w)) =
            ui w @
            [St_title (''Medical Data Analysis '' @ microscope),
             St_html (metric_card (str_of_nat (nrows d)) ''Records''),
             St_html (metric_card (str_of_nat (length (columns d))) ''Features''),
             St_html (metric_card (str_of_nat (length (columns (select_numeric d))))
                        ''Numeric Cols''),
             St_html (metric_card (str_of_nat (missing_cells d)) ''Missing Values'')] @ rest"
    by (simp add: data_overview_def len_df_def len_columns_def
        missing_values_cells [OF assms(1)])
  have b: "file_uploader [''csv'', ''xlsx''] (Some g) = Some g"
    using assms(5) by (simp add: quick_accepts)
  have quick: "\<exists>rest. ui (snd (show_quick_summary env (Some g) w)) =
            ui w @
            [St_title (''Quick Summary '' @ clipboard),
             St_markdown ''### Dataset Overview'',
             St_metric ''Total Records'' (nrows d),
             St_metric ''Features'' (length (columns d)),
             St_metric ''Missing Values'' (missing_cells d)] @ rest"
    using quick_shows_overview [OF b assms(6), of w]
    by (simp add: len_df_def len_columns_def missing_values_cells [OF assms(1)])
  have num: "length (columns (select_numeric d)) =
         length (filter (\<lambda>c. col_dtype c = Int64 \<or> col_dtype c = Float64) (columns d))"
    by (simp add: select_numeric_def)
  show ?thesis
    unfolding Let_def
    using up quick num by (simp add: metric_card_literal decimal_str_of_nat microscope_def clipboard_def)
qed

theorem C3_displayed_statistics_witness:
  \<open>let card = (\<lambda>v label.
          [CHR 0x0A] @ ''                    <div class="metric-card">'' @
          [CHR 0x0A] @ ''                        <div class="metric-value">'' @ v @ ''</div>'' @
          [CHR 0x0A] @ ''                        <div class="metric-label">'' @ label @ ''</div>'' @
          [CHR 0x0A] @ ''                    </div>'' @
          [CHR 0x0A] @ ''                '')
   in table_ok clinic_table \<and> nrows clinic_table = 100 \<and>
      length (columns clinic_table) = 5 \<and> missing_cells clinic_table = 3 \<and>
      take 5 (ui (snd (show_upload_and_analyze clinic_env upload_clinic start_world))) =
        [St_title (''Medical Data Analysis '' @ [CHR 0xF0, CHR 0x9F, CHR 0x94, CHR 0xAC]),
         St_html (card ''100'' ''Records''),
         St_html (card ''5'' ''Features''),
         St_html (card ''3'' ''Numeric Cols''),
         St_html (card ''3'' ''Missing Values'')] \<and>
      take 5 (ui (snd (show_quick_summary clinic_env (Some clinic_xlsx) start_world))) =
        [St_title (''Quick Summary '' @ [CHR 0xF0, CHR 0x9F, CHR 0x93, CHR 0x8B]),
         St_markdown ''### Dataset Overview'',
         St_metric ''Total Records'' 100,
         St_metric ''Features'' 5,
         St_metric ''Missing Values'' 3]\<close>
proof -
  have w: "ui start_world = []" by (simp add: start_world_def)
  show ?thesis
    using C3_displayed_statistics [OF clinic_table_ok clinic_upload]
    unfolding Let_def
    by (auto simp add: clinic_table_ok clinic_counts str_of_nat_examples w)
qed

section \<open>Report generation\<close>










section \<open>The store\<close>

text \<open>
  C7. In a store that satisfies its invariant, \<open>save\<close> followed at once by \<open>getDetails\<close>
  on the returned identifier finds a record, and its file name, report type and
  metadata (and its path and stored result) are the arguments of \<open>save\<close>.
\<close>

theorem C7_save_then_details:
  assumes "store_ok st"
    and "save_report st fname path rtype res md = Inr (i, st')"
  shows "\<exists>d. get_report_details st' i = Inr (Some d) \<and>
             rid (d_report d) = i \<and>
             filename (d_report d) = fname \<and>
             report_type (d_report d) = rtype \<and>
             metadata (d_report d) = md \<and>
             report_path (d_report d) = path \<and>
             stored_results (d_report d) = res"
proof -
  have av: "available st" using assms(2) by (auto simp add: save_report_def split: if_splits)
  have i: "i = next_id st" using assms(2) av by (simp add: save_report_def)
  have st': "st' = st\<lparr>reports := reports st @
       [\<lparr>rid = next_id st, filename = fname, report_path = path, report_type = rtype,
         stored_results = res, metadata = md, created_at = clock st\<rparr>],
       next_id := next_id st + 1\<rparr>"
    using assms(2) av by (auto simp add: save_report_def)
  have old: "list_all (\<lambda>r. rid r < next_id st) (reports st)"
    using assms(1) by (simp add: store_ok_def)
  show ?thesis
    unfolding st' i by (simp add: get_report_details_def av find_fresh [OF old])
qed

theorem C7_save_then_details_witness:
  "store_ok one_report_store \<and>
   (\<exists>st' d.
      save_report one_report_store ''trial.csv'' ''reports/trial.pdf'' ''standard'' bare_result
        [(''rows'', MInt 40)] = Inr (2, st') \<and>
      get_report_details st' 2 = Inr (Some d) \<and>
      rid (d_report d) = 2 \<and>
      filename (d_report d) = ''trial.csv'' \<and>
      report_type (d_report d) = ''standard'' \<and>
      metadata (d_report d) = [(''rows'', MInt 40)])"
proof -
  obtain st' where s:
    "save_report one_report_store ''trial.csv'' ''reports/trial.pdf'' ''standard'' bare_result
        [(''rows'', MInt 40)] = Inr (2, st')"
    by (simp add: save_report_def one_report_store_def)
  show ?thesis
    using one_report_store_ok s C7_save_then_details [OF one_report_store_ok s] by blast
qed

lemma newest_first_sorted:
  "sorted_wrt (\<lambda>a b. (created_at b, rid b) \<le> (created_at a, rid a)) (newest_first rs)"
proof -
  have "sorted (map (\<lambda>r. (created_at r, rid r)) (sort_key (\<lambda>r. (created_at r, rid r)) rs))"
    by (rule sorted_sort_key)
  then have "sorted_wrt (\<lambda>a b. (created_at a, rid a) \<le> (created_at b, rid b))
               (sort_key (\<lambda>r. (created_at r, rid r)) rs)"
    by (simp add: sorted_wrt_map)
  then show ?thesis by (simp add: newest_first_def sorted_wrt_rev)
qed

lemma newest_first_set: "set (newest_first rs) = set rs" "length (newest_first rs) = length rs"
  by (simp_all add: newest_first_def)

text \<open>
  C8. \<open>recent(n)\<close> returns at most \<open>n\<close> summaries (exactly \<open>n\<close>, or all when the store has
  fewer), each of a stored Report Record, ordered by creation time descending with ties
  broken by identifier descending; and the Report History page, given the empty search
  query, asks for \<open>recent(10)\<close>.
\<close>

theorem C8_recent_reports:
  assumes "get_recent_reports st n = Inr xs"
  shows "length xs \<le> n \<and>
         length xs = min n (length (reports st)) \<and>
         set xs \<subseteq> summary_of ` set (reports st) \<and>
         sorted_wrt
           (\<lambda>a b. s_created_at b < s_created_at a \<or>
                  (s_created_at b = s_created_at a \<and> s_id b \<le> s_id a)) xs \<and>
         history_reports st '''' = get_recent_reports st 10"
proof -
  have xs: "xs = map summary_of (take n (newest_first (reports st)))"
    using assms by (auto simp add: get_recent_reports_def split: if_splits)
  have "sorted_wrt (\<lambda>a b. (created_at b, rid b) \<le> (created_at a, rid a))
          (take n (newest_first (reports st)))"
    using newest_first_sorted by (rule sorted_wrt_take)
  then have "sorted_wrt
           (\<lambda>a b. s_created_at b < s_created_at a \<or>
                  (s_created_at b = s_created_at a \<and> s_id b \<le> s_id a)) xs"
    unfolding xs sorted_wrt_map
    by (rule sorted_wrt_mono_rel [rotated]) (auto simp add: summary_of_def)
  moreover have "set xs \<subseteq> summary_of ` set (reports st)"
    unfolding xs using set_take_subset [of n "newest_first (reports st)"]
    by (auto simp add: newest_first_set)
  moreover have "length xs = min n (length (reports st))"
    by (simp add: xs newest_first_set min.commute)
  ultimately show ?thesis by (simp add: history_reports_def)
qed

theorem C8_recent_reports_witness:
  "get_recent_reports three_report_store 2 =
     Inr [summary_of (stamped 3 9), summary_of (stamped 2 5)] \<and>
   length [summary_of (stamped 3 9), summary_of (stamped 2 5)] \<le> (2::nat) \<and>
   sorted_wrt
     (\<lambda>a b. s_created_at b < s_created_at a \<or>
            (s_created_at b = s_created_at a \<and> s_id b \<le> s_id a))
     [summary_of (stamped 3 9), summary_of (stamped 2 5)] \<and>
   history_reports three_report_store '''' =
     Inr [summary_of (stamped 3 9), summary_of (stamped 2 5), summary_of (stamped 1 5)]"
proof -
  have a: "get_recent_reports three_report_store 2 =
     Inr [summary_of (stamped 3 9), summary_of (stamped 2 5)]"
    by (simp add: get_recent_reports_def three_report_store_def newest_first_def stamped_def)
  have b: "get_recent_reports three_report_store 10 =
     Inr [summary_of (stamped 3 9), summary_of (stamped 2 5), summary_of (stamped 1 5)]"
    by (simp add: get_recent_reports_def three_report_store_def newest_first_def stamped_def)
  show ?thesis
    using a b C8_recent_reports [OF a] by simp
qed

end
